theory Spec2Isabelle
  imports Complex_Main "HOL-Library.AList"
begin

section \<open>JavaScript values and plain objects\<close>

text \<open>
  The OAuth2 providers and the info route handle data that arrives as JSON and is passed
  on untyped. A value is modelled by the shape JavaScript gives it at run time. A property
  that is read but missing yields \<open>Undefined\<close>. A number is the value of the double;
  a plain object is the list of its own properties in enumeration order.

  Coercions of a value to a string or to a number are not evaluated: a template literal
  keeps its interpolated values (see \<open>piece\<close>), and the one date the providers compute,
  \<^verbatim>\<open>new Date(Date.now() + v * 1000)\<close>, is carried as \<open>DateAfter now v\<close>.
\<close>

datatype jsval =
    Undefined
  | Null
  | Bool bool
  | Num rat
  | Str string
  | Arr "jsval list"
  | Obj "(string \<times> jsval) list"
  | DateAfter int jsval

type_synonym props = "(string \<times> jsval) list"

text \<open>ToBoolean: what \<^verbatim>\<open>if (v)\<close>, \<^verbatim>\<open>!v\<close>, \<^verbatim>\<open>v ? a : b\<close> and \<^verbatim>\<open>v || w\<close> test.\<close>

fun truthy :: "jsval \<Rightarrow> bool" where
  "truthy Undefined = False"
| "truthy Null = False"
| "truthy (Bool b) = b"
| "truthy (Num n) = (n \<noteq> 0)"
| "truthy (Str s) = (s \<noteq> [])"
| "truthy (Arr _) = True"
| "truthy (Obj _) = True"
| "truthy (DateAfter _ _) = True"

text \<open>
  \<^verbatim>\<open>o.k\<close> and \<^verbatim>\<open>o[k]\<close> on a plain object, for the keys the sources read: the
  object's own property, or \<open>undefined\<close> (none of the keys read by name is defined on
  \<^verbatim>\<open>Object.prototype\<close>).
\<close>

definition own :: "props \<Rightarrow> string \<Rightarrow> jsval" where
  "own ps k = (case map_of ps k of None \<Rightarrow> Undefined | Some v \<Rightarrow> v)"

text \<open>\<^verbatim>\<open>Object.keys(o)\<close>.\<close>

definition keys :: "props \<Rightarrow> string list" where
  "keys ps = map fst ps"

text \<open>
  \<^verbatim>\<open>obj[key] = v\<close> on a plain object: an existing own property is overwritten in
  place, a new one is added last. The key \<^verbatim>\<open>__proto__\<close> is the exception: the
  assignment runs the setter inherited from \<^verbatim>\<open>Object.prototype\<close>, which may replace
  the prototype of \<open>obj\<close> but creates no own property.
\<close>

definition js_set :: "props \<Rightarrow> string \<Rightarrow> jsval \<Rightarrow> props" where
  "js_set obj k v = (if k = ''__proto__'' then obj else AList.update k v obj)"

text \<open>
  \<^verbatim>\<open>Object.assign(target, source)\<close>: every own property of the source is set on the
  target, in order.
\<close>

definition object_assign :: "props \<Rightarrow> props \<Rightarrow> props" where
  "object_assign target source = foldl (\<lambda>obj (k, v). js_set obj k v) target source"

text \<open>\<^verbatim>\<open>xs.join(sep)\<close> on an array of strings.\<close>

fun join :: "string \<Rightarrow> string list \<Rightarrow> string" where
  "join sep [] = []"
| "join sep [x] = x"
| "join sep (x # y # ys) = x @ sep @ join sep (y # ys)"

section \<open>Provider settings and the constructors\<close>

text \<open>
  \<^verbatim>\<open>IOAuth2ProviderSettings\<close> is declared in \<^verbatim>\<open>./oauth-provider\<close>, outside these
  sources; the providers read \<open>client_id\<close>, \<open>client_secret\<close> and \<open>scopes\<close> from it.
  \<^verbatim>\<open>IGithubAuthSettings\<close> adds \<open>state\<close> (here \<open>settings_state\<close>, no method reads
  it), \<^verbatim>\<open>IGitlabAuthSettings\<close> adds \<open>host\<close>. \<open>scopes\<close> is optional: \<open>None\<close> is the
  missing property.
\<close>

record IOAuth2ProviderSettings =
  client_id :: string
  client_secret :: string
  scopes :: "string list option"

record IGithubAuthSettings = IOAuth2ProviderSettings +
  settings_state :: string

record IGitlabAuthSettings = IOAuth2ProviderSettings +
  host :: string

text \<open>\<^verbatim>\<open>if (!xs.includes(s)) { xs.push(s); }\<close>\<close>

definition push_missing :: "string \<Rightarrow> string list \<Rightarrow> string list" where
  "push_missing s xs = (if s \<in> set xs then xs else xs @ [s])"

text \<open>
  The body both constructors run after \<^verbatim>\<open>super(settings)\<close> (the constructor of
  \<^verbatim>\<open>OAuth2Provider\<close>, declared outside these sources). It mutates the caller's
  settings object, which is also the object the provider keeps as \<^verbatim>\<open>this.settings\<close>;
  the model returns the settings as they are afterwards.
\<close>

definition supplied :: "string list option \<Rightarrow> string list" where
  "supplied sc = (case sc of None \<Rightarrow> [] | Some xs \<Rightarrow> xs)"

definition default_scopes :: "string list option \<Rightarrow> string list" where
  "default_scopes sc =
     (let s0 = supplied sc;
          s1 = push_missing ''email'' s0;
          s2 = push_missing ''profile'' s1;
          s3 = push_missing ''openid'' s2
      in s3)"

definition github_constructor :: "IGithubAuthSettings \<Rightarrow> IGithubAuthSettings" where
  "github_constructor settings = settings\<lparr>scopes := Some (default_scopes (scopes settings))\<rparr>"

definition gitlab_constructor :: "IGitlabAuthSettings \<Rightarrow> IGitlabAuthSettings" where
  "gitlab_constructor settings = settings\<lparr>scopes := Some (default_scopes (scopes settings))\<rparr>"

section \<open>Requests, responses and the network\<close>

text \<open>
  A template literal after its holes have been evaluated: literal text and the values
  interpolated into it, in order.
\<close>

datatype piece = Lit string | Val jsval

type_synonym template = "piece list"

text \<open>
  \<^verbatim>\<open>fetch(url, options)\<close> comes from \<^verbatim>\<open>../shared/simple-fetch\<close>, outside these
  sources. The model keeps what the providers pass to it (the request method is the field
  \<open>http_method\<close>) and what they read from its answer: the status, and the body once
  parsed as JSON (\<^verbatim>\<open>response.json()\<close>, or \<^verbatim>\<open>JSON.parse\<close> of
  \<^verbatim>\<open>response.text()\<close>). The endpoints answer with a JSON object; the literal
  \<^verbatim>\<open>null\<close> and a body that is not JSON are kept as well, since the sources fail on
  them in their own way. Bodies that are a bare array, string, number or boolean are
  outside the model.
\<close>

record fetch_options =
  http_method :: string
  headers :: "(string \<times> string) list"
  body :: "string option"

record request =
  url :: jsval
  options :: "fetch_options option"

datatype json = JsonNull | JsonObject props

record response =
  status :: nat
  parsed :: "json option"

datatype fetch_outcome = Rejected | Response response

text \<open>
  The world outside the process: what the network answers to the \<open>n\<close>-th request issued,
  and the requests issued so far. Calling \<^verbatim>\<open>fetch\<close> issues the request; the promise
  settles later with the answer to that request.
\<close>

record world =
  network :: "nat \<Rightarrow> request \<Rightarrow> fetch_outcome"
  requests :: "request list"

definition issue :: "request \<Rightarrow> world \<Rightarrow> nat \<times> world" where
  "issue rq w = (length (requests w), w\<lparr>requests := requests w @ [rq]\<rparr>)"

definition settle :: "nat \<Rightarrow> request \<Rightarrow> world \<Rightarrow> fetch_outcome" where
  "settle n rq w = network w n rq"

text \<open>\<^verbatim>\<open>await fetch(...)\<close> with nothing else running in between.\<close>

definition fetch :: "request \<Rightarrow> world \<Rightarrow> fetch_outcome \<times> world" where
  "fetch rq w = (let (n, w') = issue rq w in (settle n rq w', w'))"

text \<open>
  What an \<^verbatim>\<open>async\<close> method can reject with: the rejection of \<^verbatim>\<open>fetch\<close> itself,
  the \<^verbatim>\<open>SyntaxError\<close> of parsing a body that is not JSON, the \<^verbatim>\<open>TypeError\<close> of
  reading a property of \<^verbatim>\<open>null\<close> or \<^verbatim>\<open>undefined\<close>, and \<^verbatim>\<open>new Error(message)\<close>.
\<close>

datatype js_error = FetchRejected | SyntaxError | TypeError | Error template

text \<open>
  \<^verbatim>\<open>encodeURIComponent\<close> on a string given as its UTF-8 bytes: the unreserved
  characters stay, every other byte becomes \<^verbatim>\<open>%XX\<close>.
\<close>

definition unreserved :: "char \<Rightarrow> bool" where
  "unreserved c =
     (c \<in> set (''ABCDEFGHIJKLMNOPQRSTUVWXYZabcdefghijklmnopqrstuvwxyz0123456789-_.!~*()'' @ [CHR 0x27]))"

definition hex_digit :: "nat \<Rightarrow> char" where
  "hex_digit n = ''0123456789ABCDEF'' ! (n mod 16)"

definition percent :: "char \<Rightarrow> string" where
  "percent c = [CHR ''%'', hex_digit (of_char c div 16), hex_digit (of_char c mod 16)]"

definition encodeURIComponent :: "string \<Rightarrow> string" where
  "encodeURIComponent s = concat (map (\<lambda>c. if unreserved c then [c] else percent c) s)"

text \<open>
  \<^verbatim>\<open>OAuth2ProviderInitInfo\<close>, \<^verbatim>\<open>IOAuth2AuthCodeParams\<close> and
  \<^verbatim>\<open>IOAuth2RefreshTokenParams\<close> are declared in \<^verbatim>\<open>./oauth-provider\<close>; the fields
  are the ones the providers read. The two parameter types are told apart by
  \<^verbatim>\<open>params.type === 'refresh'\<close>.
\<close>

record OAuth2ProviderInitInfo =
  redirect_url :: string
  state :: string

datatype token_params =
    AuthCode (auth_code: string) (code_redirect_url: string)
  | Refresh (refresh_token: string)

section \<open>The GitHub provider\<close>

text \<open>
  \<^verbatim>\<open>init\<close>: the whole body is one template literal over the settings and the input.
  \<^verbatim>\<open>this.settings.scopes.join\<close> fails with a \<^verbatim>\<open>TypeError\<close> when there is no scopes
  array (the constructor always leaves one).
\<close>

definition github_init ::
  "IGithubAuthSettings \<Rightarrow> OAuth2ProviderInitInfo \<Rightarrow> world \<Rightarrow> (js_error + string) \<times> world" where
  "github_init settings info w =
     (case scopes settings of
        None \<Rightarrow> (Inl TypeError, w)
      | Some sc \<Rightarrow>
          (Inr (''https://github.com/login/oauth/authorize?scope='' @ encodeURIComponent (join '' '' sc)
                @ ''&client_id='' @ client_id settings
                @ ''&state='' @ encodeURIComponent (state info)
                @ ''&redirect_uri='' @ encodeURIComponent (redirect_url info)), w))"

text \<open>The form body sent to the token endpoint.\<close>

definition github_token_body :: "IGithubAuthSettings \<Rightarrow> token_params \<Rightarrow> string" where
  "github_token_body settings params =
     ''client_id='' @ client_id settings @ ''&client_secret='' @ client_secret settings @ ''&code=''
     @ (case params of
          Refresh tok \<Rightarrow> tok @ ''&grant_type=refresh_token''
        | AuthCode code redir \<Rightarrow> code @ ''&redirect_uri='' @ encodeURIComponent redir)"

definition github_token_request :: "IGithubAuthSettings \<Rightarrow> token_params \<Rightarrow> request" where
  "github_token_request settings params =
     \<lparr>url = Str ''https://github.com/login/oauth/access_token'',
      options = Some \<lparr>http_method = ''POST'',
                        headers = [(''Content-Type'', ''application/x-www-form-urlencoded''),
                                   (''Accept'', ''application/json'')],
                        body = Some (github_token_body settings params)\<rparr>\<rparr>"

text \<open>
  \<^verbatim>\<open>getAccessToken\<close>: the status of the response is not read; the call throws when
  the parsed body has a truthy \<^verbatim>\<open>error\<close> property, with that value as the message.
\<close>

definition github_getAccessToken ::
  "IGithubAuthSettings \<Rightarrow> token_params \<Rightarrow> world \<Rightarrow> (js_error + props) \<times> world" where
  "github_getAccessToken settings params w =
     (let (out, w') = fetch (github_token_request settings params) w in
      case out of
        Rejected \<Rightarrow> (Inl FetchRejected, w')
      | Response r \<Rightarrow>
          (case parsed r of
             None \<Rightarrow> (Inl SyntaxError, w')
           | Some JsonNull \<Rightarrow> (Inl TypeError, w')
           | Some (JsonObject result) \<Rightarrow>
               if truthy (own result ''error'') then (Inl (Error [Val (own result ''error'')]), w')
               else (Inr result, w')))"

definition github_user_request :: "string \<Rightarrow> request" where
  "github_user_request access_token =
     \<lparr>url = Str ''https://api.github.com/user'',
      options = Some \<lparr>http_method = ''GET'',
                        headers = [(''Authorization'', ''Bearer '' @ access_token),
                                   (''Accept'', ''application/vnd.github+json''),
                                   (''user-agent'', ''node.js'')],
                        body = None\<rparr>\<rparr>"

text \<open>
  \<^verbatim>\<open>Object.keys(user).filter(key => !excluded.includes(key)).reduce((obj, key) => { obj[key] = user[key]; return obj; }, {})\<close>
\<close>

definition other_fields :: "string list \<Rightarrow> props \<Rightarrow> props" where
  "other_fields excluded user =
     foldl (\<lambda>obj key. js_set obj key (own user key)) []
       (filter (\<lambda>key. key \<notin> set excluded) (keys user))"

text \<open>The object literal \<^verbatim>\<open>getUserInfo\<close> returns.\<close>

definition github_profile :: "props \<Rightarrow> props" where
  "github_profile user =
     [(''id'', own user ''id''),
      (''name'', own user ''name''),
      (''display_name'', own user ''name''),
      (''picture'', if truthy (own user ''avatar_url'')
                    then Arr [Obj [(''url'', own user ''avatar_url'')]] else Arr []),
      (''email'', own user ''email''),
      (''email_verified'', Bool True),
      (''other'', Obj (other_fields [''sub'', ''name'', ''picture'', ''email_verified''] user))]"

text \<open>
  The message of the error thrown on a status other than 200:
  \<^verbatim>\<open>`${error.error}: ${error.error_description}`\<close>.
\<close>

definition provider_error :: "props \<Rightarrow> js_error" where
  "provider_error error = Error [Val (own error ''error''), Lit '': '', Val (own error ''error_description'')]"

text \<open>
  \<^verbatim>\<open>getUserInfo\<close>: the body is parsed before the status is looked at; a parsed
  \<^verbatim>\<open>null\<close> makes the first property read throw.
\<close>

definition github_getUserInfo :: "string \<Rightarrow> world \<Rightarrow> (js_error + props) \<times> world" where
  "github_getUserInfo access_token w =
     (let (out, w') = fetch (github_user_request access_token) w in
      case out of
        Rejected \<Rightarrow> (Inl FetchRejected, w')
      | Response r \<Rightarrow>
          (case parsed r of
             None \<Rightarrow> (Inl SyntaxError, w')
           | Some JsonNull \<Rightarrow> (Inl TypeError, w')
           | Some (JsonObject result) \<Rightarrow>
               if status r \<noteq> 200 then (Inl (provider_error result), w')
               else (Inr (github_profile result), w')))"

section \<open>The GitLab provider\<close>

text \<open>
  A provider instance: its settings and \<^verbatim>\<open>_config\<close>, the discovery document once
  stored (\<open>None\<close> is the field still \<^verbatim>\<open>undefined\<close>).
\<close>

record gitlab =
  settings :: IGitlabAuthSettings
  config :: "json option"

definition discovery_request :: "IGitlabAuthSettings \<Rightarrow> request" where
  "discovery_request s =
     \<lparr>url = Str (''https://'' @ host s @ ''/.well-known/openid-configuration''), options = None\<rparr>"

text \<open>
  \<^verbatim>\<open>getOpenIDConfig\<close> up to its \<^verbatim>\<open>await\<close>: \<^verbatim>\<open>if (this._config)\<close> holds for a
  stored object (a stored \<^verbatim>\<open>null\<close> is falsy), and the call returns it; otherwise the
  discovery request is issued and the call is suspended on it.
\<close>

definition getOpenIDConfig_begin :: "gitlab \<Rightarrow> world \<Rightarrow> (json + nat) \<times> world" where
  "getOpenIDConfig_begin p w =
     (case config p of
        Some (JsonObject c) \<Rightarrow> (Inl (JsonObject c), w)
      | _ \<Rightarrow> (let (n, w') = issue (discovery_request (settings p)) w in (Inr n, w')))"

text \<open>
  \<^verbatim>\<open>getOpenIDConfig\<close> from its \<^verbatim>\<open>await\<close> on: a rejected fetch or a body that is not
  JSON throws before the assignment; otherwise the parsed body is stored and returned.
\<close>

definition getOpenIDConfig_resume :: "gitlab \<Rightarrow> fetch_outcome \<Rightarrow> (js_error + json) \<times> gitlab" where
  "getOpenIDConfig_resume p out =
     (case out of
        Rejected \<Rightarrow> (Inl FetchRejected, p)
      | Response r \<Rightarrow>
          (case parsed r of
             None \<Rightarrow> (Inl SyntaxError, p)
           | Some c \<Rightarrow> (Inr c, p\<lparr>config := Some c\<rparr>)))"

text \<open>A call of \<^verbatim>\<open>getOpenIDConfig\<close> that runs to its end before anything else happens.\<close>

definition getOpenIDConfig :: "gitlab \<Rightarrow> world \<Rightarrow> (js_error + json) \<times> gitlab \<times> world" where
  "getOpenIDConfig p w =
     (case getOpenIDConfig_begin p w of
        (Inl c, w') \<Rightarrow> (Inr c, p, w')
      | (Inr n, w') \<Rightarrow>
          (let (r, p') = getOpenIDConfig_resume p (settle n (discovery_request (settings p)) w')
           in (r, p', w')))"

text \<open>\<open>n\<close> calls of \<^verbatim>\<open>getOpenIDConfig\<close> on one instance, one after the other.\<close>

fun getOpenIDConfig_calls :: "nat \<Rightarrow> gitlab \<Rightarrow> world \<Rightarrow> (js_error + json) list \<times> gitlab \<times> world" where
  "getOpenIDConfig_calls 0 p w = ([], p, w)"
| "getOpenIDConfig_calls (Suc n) p w =
     (case getOpenIDConfig p w of
        (r, p', w') \<Rightarrow>
          (case getOpenIDConfig_calls n p' w' of (rs, p'', w'') \<Rightarrow> (r # rs, p'', w'')))"

text \<open>
  Calls of \<^verbatim>\<open>getOpenIDConfig\<close> on one instance that overlap. A call that has issued its
  fetch is suspended at the \<^verbatim>\<open>await\<close> and other calls may begin or resume before its
  answer arrives; the session keeps the tickets of the suspended calls. \<open>Begin\<close> is a new
  call running up to its \<^verbatim>\<open>await\<close> (or to its \<^verbatim>\<open>return\<close>, when a document is
  stored); \<open>Resume n\<close> is the suspended call with ticket \<open>n\<close> running from its
  \<^verbatim>\<open>await\<close> to its end, and is possible only for a call that is suspended.
\<close>

datatype event = Begin | Resume nat

datatype outcome = Returned "js_error + json" | Suspended nat

record session =
  provider :: gitlab
  outside :: world
  waiting :: "nat list"

definition step :: "event \<Rightarrow> session \<Rightarrow> (outcome \<times> session) option" where
  "step e s =
     (case e of
        Begin \<Rightarrow>
          (case getOpenIDConfig_begin (provider s) (outside s) of
             (Inl c, w') \<Rightarrow> Some (Returned (Inr c), s\<lparr>outside := w'\<rparr>)
           | (Inr n, w') \<Rightarrow> Some (Suspended n, s\<lparr>outside := w', waiting := waiting s @ [n]\<rparr>))
      | Resume n \<Rightarrow>
          if n \<in> set (waiting s)
          then (case getOpenIDConfig_resume (provider s)
                       (settle n (discovery_request (settings (provider s))) (outside s)) of
                  (r, p') \<Rightarrow> Some (Returned r, s\<lparr>provider := p', waiting := removeAll n (waiting s)\<rparr>))
          else None)"

fun run :: "event list \<Rightarrow> session \<Rightarrow> (outcome list \<times> session) option" where
  "run [] s = Some ([], s)"
| "run (e # es) s =
     (case step e s of
        None \<Rightarrow> None
      | Some (out, s') \<Rightarrow>
          (case run es s' of
             None \<Rightarrow> None
           | Some (outs, s'') \<Rightarrow> Some (out # outs, s'')))"

text \<open>
  \<^verbatim>\<open>init\<close>: the discovery document first, then one template literal that starts with
  the document's \<^verbatim>\<open>authorization_endpoint\<close>.
\<close>

definition gitlab_init ::
  "gitlab \<Rightarrow> OAuth2ProviderInitInfo \<Rightarrow> world \<Rightarrow> (js_error + template) \<times> gitlab \<times> world" where
  "gitlab_init p info w =
     (case getOpenIDConfig p w of
        (Inl e, p', w') \<Rightarrow> (Inl e, p', w')
      | (Inr JsonNull, p', w') \<Rightarrow> (Inl TypeError, p', w')
      | (Inr (JsonObject c), p', w') \<Rightarrow>
          (case scopes (settings p') of
             None \<Rightarrow> (Inl TypeError, p', w')
           | Some sc \<Rightarrow>
               (Inr [Val (own c ''authorization_endpoint''),
                     Lit (''?response_type=code&access_type=offline&include_granted_scopes=true&client_id=''
                          @ client_id (settings p')
                          @ ''&scope='' @ encodeURIComponent (join '' '' sc)
                          @ ''&redirect_uri='' @ encodeURIComponent (redirect_url info)
                          @ ''&state='' @ encodeURIComponent (state info))], p', w')))"

definition gitlab_token_body :: "IGitlabAuthSettings \<Rightarrow> token_params \<Rightarrow> string" where
  "gitlab_token_body s params =
     ''client_id='' @ client_id s @ ''&client_secret='' @ client_secret s @ ''&code=''
     @ (case params of
          Refresh tok \<Rightarrow> tok @ ''&grant_type=refresh_token''
        | AuthCode code redir \<Rightarrow>
            code @ ''&grant_type=authorization_code&redirect_uri='' @ encodeURIComponent redir)"

definition gitlab_token_request :: "IGitlabAuthSettings \<Rightarrow> props \<Rightarrow> token_params \<Rightarrow> request" where
  "gitlab_token_request s c params =
     \<lparr>url = own c ''token_endpoint'',
      options = Some \<lparr>http_method = ''POST'',
                        headers = [(''Content-Type'', ''application/x-www-form-urlencoded'')],
                        body = Some (gitlab_token_body s params)\<rparr>\<rparr>"

text \<open>
  \<^verbatim>\<open>getAccessToken\<close>: as for GitHub the status is not read. On success the parsed
  object gets an \<^verbatim>\<open>expires\<close> property, \<open>now\<close> being the reading of
  \<^verbatim>\<open>Date.now()\<close>.
\<close>

definition gitlab_getAccessToken ::
  "int \<Rightarrow> gitlab \<Rightarrow> token_params \<Rightarrow> world \<Rightarrow> (js_error + props) \<times> gitlab \<times> world" where
  "gitlab_getAccessToken now p params w =
     (case getOpenIDConfig p w of
        (Inl e, p', w') \<Rightarrow> (Inl e, p', w')
      | (Inr JsonNull, p', w') \<Rightarrow> (Inl TypeError, p', w')
      | (Inr (JsonObject c), p', w') \<Rightarrow>
          (let (out, w'') = fetch (gitlab_token_request (settings p') c params) w' in
           case out of
             Rejected \<Rightarrow> (Inl FetchRejected, p', w'')
           | Response r \<Rightarrow>
               (case parsed r of
                  None \<Rightarrow> (Inl SyntaxError, p', w'')
                | Some JsonNull \<Rightarrow> (Inl TypeError, p', w'')
                | Some (JsonObject result) \<Rightarrow>
                    if truthy (own result ''error'') then (Inl (Error [Val (own result ''error'')]), p', w'')
                    else (Inr (js_set result ''expires'' (DateAfter now (own result ''expires_in''))), p', w''))))"

definition gitlab_user_request :: "props \<Rightarrow> string \<Rightarrow> request" where
  "gitlab_user_request c access_token =
     \<lparr>url = own c ''userinfo_endpoint'',
      options = Some \<lparr>http_method = ''GET'',
                        headers = [(''Authorization'', ''Bearer '' @ access_token)],
                        body = None\<rparr>\<rparr>"

definition gitlab_profile :: "props \<Rightarrow> props" where
  "gitlab_profile user =
     [(''id'', own user ''sub''),
      (''name'', own user ''name''),
      (''display_name'', if truthy (own user ''nickname'') then own user ''nickname'' else own user ''name''),
      (''picture'', if truthy (own user ''picture'')
                    then Arr [Obj [(''url'', own user ''picture'')]] else Arr []),
      (''email'', own user ''email''),
      (''email_verified'', own user ''email_verified''),
      (''other'', Obj (other_fields [''sub'', ''name'', ''picture'', ''email'', ''email_verified''] user))]"

definition gitlab_getUserInfo ::
  "gitlab \<Rightarrow> string \<Rightarrow> world \<Rightarrow> (js_error + props) \<times> gitlab \<times> world" where
  "gitlab_getUserInfo p access_token w =
     (case getOpenIDConfig p w of
        (Inl e, p', w') \<Rightarrow> (Inl e, p', w')
      | (Inr JsonNull, p', w') \<Rightarrow> (Inl TypeError, p', w')
      | (Inr (JsonObject c), p', w') \<Rightarrow>
          (let (out, w'') = fetch (gitlab_user_request c access_token) w' in
           case out of
             Rejected \<Rightarrow> (Inl FetchRejected, p', w'')
           | Response r \<Rightarrow>
               (case parsed r of
                  None \<Rightarrow> (Inl SyntaxError, p', w'')
                | Some JsonNull \<Rightarrow> (Inl TypeError, p', w'')
                | Some (JsonObject result) \<Rightarrow>
                    if status r \<noteq> 200 then (Inl (provider_error result), p', w'')
                    else (Inr (gitlab_profile result), p', w''))))"

section \<open>The info route\<close>

text \<open>
  What the handler of \<^verbatim>\<open>/info/<dbname>\<close> reads from its surroundings: the version in
  \<^verbatim>\<open>package.json\<close>, the clock, the process, the \<^verbatim>\<open>os\<close> module and
  \<^verbatim>\<open>process.memoryUsage()\<close>. The handler's two local helpers \<^verbatim>\<open>numberToByteSize\<close>
  and \<^verbatim>\<open>numberToTime\<close> format floating-point numbers as text; they are taken as given.
\<close>

record os_module =
  platform :: jsval
  arch :: jsval
  release :: jsval
  hostname :: jsval
  uptime :: rat
  loadavg :: jsval
  totalmem :: rat
  freemem :: rat
  cpus :: jsval
  networkInterfaces :: jsval

record memory_usage =
  arrayBuffers :: rat
  external :: rat
  heapTotal :: rat
  heapUsed :: rat
  rss :: rat

record info_env =
  db_name :: string
  meta_version :: jsval
  date_now :: rat
  process_pid :: rat
  os :: os_module
  memoryUsage :: memory_usage
  numberToByteSize :: "rat \<Rightarrow> string"
  numberToTime :: "rat \<Rightarrow> string"

text \<open>
  \<^verbatim>\<open>req.user\<close> is optional (\<^verbatim>\<open>RouteRequestEnvironment\<close>); its type
  \<^verbatim>\<open>DbUserAccountDetails\<close> is declared in \<^verbatim>\<open>../schema/user\<close>, and the handler reads
  its \<open>uid\<close>.
\<close>

record DbUserAccountDetails =
  uid :: string

record RouteRequest =
  user :: "DbUserAccountDetails option"

definition adminInfo :: "info_env \<Rightarrow> props" where
  "adminInfo env =
     [(''dbname'', Str (db_name env)),
      (''platform'', platform (os env)),
      (''arch'', arch (os env)),
      (''release'', release (os env)),
      (''host'', hostname (os env)),
      (''uptime'', Str (numberToTime env (uptime (os env)))),
      (''load'', loadavg (os env)),
      (''mem'', Obj
         [(''total'', Str (numberToByteSize env (totalmem (os env)))),
          (''free'', Str (numberToByteSize env (freemem (os env)))),
          (''process'', Obj
             [(''arrayBuffers'', Str (numberToByteSize env (arrayBuffers (memoryUsage env)))),
              (''external'', Str (numberToByteSize env (external (memoryUsage env)))),
              (''heapTotal'', Str (numberToByteSize env (heapTotal (memoryUsage env)))),
              (''heapUsed'', Str (numberToByteSize env (heapUsed (memoryUsage env)))),
              (''residentSet'', Str (numberToByteSize env (rss (memoryUsage env))))])]),
      (''cpus'', cpus (os env)),
      (''network'', networkInterfaces (os env))]"

text \<open>The handler: the value passed to \<^verbatim>\<open>res.send\<close>.\<close>

definition info_route :: "info_env \<Rightarrow> RouteRequest \<Rightarrow> props" where
  "info_route env req =
     (let info = [(''version'', meta_version env),
                  (''time'', Num (date_now env)),
                  (''process'', Num (process_pid env))]
      in if (case user req of None \<Rightarrow> False | Some u \<Rightarrow> uid u = ''admin'')
         then object_assign info (adminInfo env)
         else info)"

section \<open>The provider registry\<close>

datatype provider_class =
    DropboxAuthProvider
  | FacebookAuthProvider
  | GoogleAuthProvider
  | InstagramAuthProvider
  | SpotifyAuthProvider
  | GitlabAuthProvider
  | GithubAuthProvider

text \<open>
  An index module of \<^verbatim>\<open>oauth-providers\<close>: the provider classes it imports, each
  with the module it comes from, the classes it exports again, and its default export,
  the registry \<^verbatim>\<open>oAuth2Providers\<close>.
\<close>

record index_module =
  imported :: "(provider_class \<times> string) list"
  exported :: "provider_class list"
  oAuth2Providers :: "(string \<times> provider_class) list"

text \<open>\<^verbatim>\<open>src/oauth-providers/index.ts\<close>.\<close>

definition index_ts :: index_module where
  "index_ts =
     \<lparr>imported = [(DropboxAuthProvider, ''dropbox''), (FacebookAuthProvider, ''facebook''),
                  (GoogleAuthProvider, ''google''), (InstagramAuthProvider, ''instagram''),
                  (SpotifyAuthProvider, ''spotify''), (GitlabAuthProvider, ''gitlab'')],
      exported = [DropboxAuthProvider, FacebookAuthProvider, GoogleAuthProvider,
                  InstagramAuthProvider, SpotifyAuthProvider, GitlabAuthProvider],
      oAuth2Providers = [(''dropbox'', DropboxAuthProvider), (''facebook'', FacebookAuthProvider),
                         (''google'', GoogleAuthProvider), (''instagram'', InstagramAuthProvider),
                         (''spotify'', SpotifyAuthProvider), (''gitlab'', GitlabAuthProvider)]\<rparr>"

text \<open>
  The index listing that follows \<^verbatim>\<open>gitlab.ts\<close> in the sources: the same module with
  the GitHub provider imported, exported and registered.
\<close>

definition index_ts_github :: index_module where
  "index_ts_github =
     \<lparr>imported = [(DropboxAuthProvider, ''dropbox''), (FacebookAuthProvider, ''facebook''),
                  (GoogleAuthProvider, ''google''), (InstagramAuthProvider, ''instagram''),
                  (SpotifyAuthProvider, ''spotify''), (GitlabAuthProvider, ''gitlab''),
                  (GithubAuthProvider, ''github'')],
      exported = [DropboxAuthProvider, FacebookAuthProvider, GoogleAuthProvider,
                  InstagramAuthProvider, SpotifyAuthProvider, GitlabAuthProvider,
                  GithubAuthProvider],
      oAuth2Providers = [(''dropbox'', DropboxAuthProvider), (''facebook'', FacebookAuthProvider),
                         (''google'', GoogleAuthProvider), (''instagram'', InstagramAuthProvider),
                         (''spotify'', SpotifyAuthProvider), (''gitlab'', GitlabAuthProvider),
                         (''github'', GithubAuthProvider)]\<rparr>"

text \<open>\<^verbatim>\<open>registry[name]\<close> for a provider name.\<close>

definition select_provider :: "index_module \<Rightarrow> string \<Rightarrow> provider_class option" where
  "select_provider m name = map_of (oAuth2Providers m) name"

section \<open>The normalized profile of the specification\<close>

text \<open>
  This definition follows the specification's data model, not the sources. There,
  FederatedProfile is
  \<^verbatim>\<open>{ id, name, display_name, picture: [{url}], email, email_verified, other: map<string,any> }\<close>.
  An object has this shape when its own properties are these seven, each once, when
  \<open>picture\<close> is an array of objects with the single property \<open>url\<close>, and when \<open>other\<close>
  is an object.
\<close>

fun is_url_record :: "jsval \<Rightarrow> bool" where
  "is_url_record (Obj [(k, _)]) = (k = ''url'')"
| "is_url_record _ = False"

fun is_picture_list :: "jsval \<Rightarrow> bool" where
  "is_picture_list (Arr xs) = list_all is_url_record xs"
| "is_picture_list _ = False"

fun is_object :: "jsval \<Rightarrow> bool" where
  "is_object (Obj _) = True"
| "is_object _ = False"

definition is_FederatedProfile :: "props \<Rightarrow> bool" where
  "is_FederatedProfile p \<longleftrightarrow>
     distinct (keys p)
     \<and> set (keys p) = {''id'', ''name'', ''display_name'', ''picture'', ''email'',
                        ''email_verified'', ''other''}
     \<and> is_picture_list (own p ''picture'')
     \<and> is_object (own p ''other'')"

text \<open>
  The picture list the specification asks for, from the payload's avatar or picture field
  as looked up in the payload: none when the field is absent or empty, one \<open>url\<close> record
  with the field's value when it is present. Empty are the values JavaScript takes for
  false.
\<close>

definition expected_picture :: "jsval option \<Rightarrow> jsval" where
  "expected_picture field =
     (case field of
        None \<Rightarrow> Arr []
      | Some v \<Rightarrow>
          if v \<in> {Undefined, Null, Bool False, Num 0, Str []} then Arr []
          else Arr [Obj [(''url'', v)]])"

section \<open>Worlds for worked examples\<close>

text \<open>
  A world in which nothing has been requested yet and whose network gives the listed
  answers to the first requests, in order, and rejects every later one.
\<close>

definition answers :: "fetch_outcome list \<Rightarrow> world" where
  "answers outs = \<lparr>network = (\<lambda>n rq. if n < length outs then outs ! n else Rejected), requests = []\<rparr>"

definition ok_json :: "props \<Rightarrow> fetch_outcome" where
  "ok_json obj = Response \<lparr>status = 200, parsed = Some (JsonObject obj)\<rparr>"

text \<open>A GitHub user payload, a GitLab discovery document and a GitLab user payload.\<close>

definition github_user :: props where
  "github_user =
     [(''login'', Str ''mona''), (''id'', Num 7), (''avatar_url'', Str ''https://img.example/7.png''),
      (''name'', Str ''Mona Lisa''), (''email'', Null), (''email_verified'', Bool False),
      (''site_admin'', Bool False)]"

definition gitlab_discovery :: props where
  "gitlab_discovery =
     [(''authorization_endpoint'', Str ''https://gitlab.example/oauth/authorize''),
      (''token_endpoint'', Str ''https://gitlab.example/oauth/token''),
      (''userinfo_endpoint'', Str ''https://gitlab.example/oauth/userinfo'')]"

definition gitlab_user :: props where
  "gitlab_user =
     [(''sub'', Str ''7''), (''name'', Str ''Mona Lisa''), (''nickname'', Str ''mona''),
      (''email'', Str ''mona@example.org''), (''email_verified'', Bool True),
      (''website'', Str ''https://example.org'')]"

text \<open>An error payload as OAuth2 servers send it, and the answer 401 that carries it.\<close>

definition error_payload :: props where
  "error_payload =
     [(''error'', Str ''invalid_grant''), (''error_description'', Str ''The code is incorrect or expired'')]"

definition unauthorized :: "props \<Rightarrow> fetch_outcome" where
  "unauthorized obj = Response \<lparr>status = 401, parsed = Some (JsonObject obj)\<rparr>"

text \<open>A second discovery document, and the session of a provider on which nothing has run.\<close>

definition gitlab_discovery_moved :: props where
  "gitlab_discovery_moved =
     [(''authorization_endpoint'', Str ''https://login.gitlab.example/authorize''),
      (''token_endpoint'', Str ''https://login.gitlab.example/token''),
      (''userinfo_endpoint'', Str ''https://login.gitlab.example/userinfo'')]"

definition fresh_session :: "gitlab \<Rightarrow> world \<Rightarrow> session" where
  "fresh_session p w = \<lparr>provider = p, outside = w, waiting = []\<rparr>"

text \<open>
  The session of the example provider with the given stored document, the given requests
  issued so far and the given suspended calls.
\<close>

definition session_of :: "json option \<Rightarrow> world \<Rightarrow> request list \<Rightarrow> nat list \<Rightarrow> session" where
  "session_of stored w rqs ts =
     \<lparr>provider = \<lparr>settings = gitlab_constructor
                     \<lparr>client_id = ''app'', client_secret = ''secret'', scopes = None,
                        host = ''gitlab.example''\<rparr>,
                  config = stored\<rparr>,
      outside = w\<lparr>requests := rqs\<rparr>, waiting = ts\<rparr>"

definition discovery_example :: request where
  "discovery_example =
     \<lparr>url = Str ''https://gitlab.example/.well-known/openid-configuration'', options = None\<rparr>"

text \<open>An answer whose body is not JSON, such as an HTML error page.\<close>

definition not_json :: "nat \<Rightarrow> fetch_outcome" where
  "not_json code = Response \<lparr>status = code, parsed = None\<rparr>"

definition init_info_example :: OAuth2ProviderInitInfo where
  "init_info_example = \<lparr>redirect_url = ''https://app.example/cb'', state = ''s 1''\<rparr>"

text \<open>A server process for the info route; the formatting helpers are stand-ins.\<close>

definition info_env_example :: info_env where
  "info_env_example =
     \<lparr>db_name = ''mydb'', meta_version = Str ''1.0.0'', date_now = 1700000000000, process_pid = 4242,
      os = \<lparr>platform = Str ''linux'', arch = Str ''x64'', release = Str ''6.1'', hostname = Str ''db1'',
             uptime = 3600, loadavg = Arr [Num 0, Num 0, Num 0], totalmem = 1024, freemem = 512,
             cpus = Arr [], networkInterfaces = Obj []\<rparr>,
      memoryUsage = \<lparr>arrayBuffers = 0, external = 0, heapTotal = 0, heapUsed = 0, rss = 0\<rparr>,
      numberToByteSize = (\<lambda>n. ''0MB''), numberToTime = (\<lambda>n. ''0d1h0m0s'')\<rparr>"

text \<open>
  A fresh GitLab provider, with its settings as the constructor leaves them, and the
  settings of a GitHub provider.
\<close>

definition gitlab_example :: gitlab where
  "gitlab_example =
     \<lparr>settings = gitlab_constructor
        \<lparr>client_id = ''app'', client_secret = ''secret'', scopes = None, host = ''gitlab.example''\<rparr>,
      config = None\<rparr>"

definition github_example :: IGithubAuthSettings where
  "github_example =
     github_constructor
       \<lparr>client_id = ''app'', client_secret = ''secret'', scopes = Some [''repo''], settings_state = []\<rparr>"

section \<open>Facts about objects\<close>

lemma map_of_js_set:
  "map_of (js_set obj k v) k' =
     (if k = ''__proto__'' then map_of obj k' else if k' = k then Some v else map_of obj k')"
  by (simp add: js_set_def update_conv')

lemma map_of_copy_keys:
  "map_of (foldl (\<lambda>obj key. js_set obj key (f key)) acc ks) k =
     (if k \<in> set ks \<and> k \<noteq> ''__proto__'' then Some (f k) else map_of acc k)"
proof (induction ks arbitrary: acc)
  case Nil
  show ?case by simp
next
  case (Cons a ks)
  show ?case
    by (simp add: Cons.IH map_of_js_set)
qed

lemma own_of_key: "k \<in> set (keys u) \<Longrightarrow> Some (own u k) = map_of u k"
  by (auto simp: own_def keys_def map_of_eq_None_iff split: option.splits)

lemma map_of_other_fields:
  "map_of (other_fields excluded u) k =
     (if k \<in> set excluded \<or> k = ''__proto__'' then None else map_of u k)"
proof (cases "k \<in> set (keys u)")
  case True
  then show ?thesis
    by (simp add: other_fields_def map_of_copy_keys own_of_key)
next
  case False
  then have "map_of u k = None"
    by (simp add: keys_def map_of_eq_None_iff)
  with False show ?thesis
    by (simp add: other_fields_def map_of_copy_keys)
qed

lemma falsy_values: "\<not> truthy v \<longleftrightarrow> v \<in> {Undefined, Null, Bool False, Num 0, Str []}"
  by (cases v) auto

lemma picture_expected:
  "(if truthy (own u k) then Arr [Obj [(''url'', own u k)]] else Arr []) = expected_picture (map_of u k)"
proof (cases "map_of u k")
  case None
  then show ?thesis by (simp add: own_def expected_picture_def)
next
  case (Some v)
  then show ?thesis
    using falsy_values [of v] by (auto simp: own_def expected_picture_def)
qed

section \<open>Facts about fetches and calls\<close>

lemma fetch_eq:
  "fetch rq w = (network w (length (requests w)) rq, w\<lparr>requests := requests w @ [rq]\<rparr>)"
  by (simp add: fetch_def issue_def settle_def)

lemma fst_fetch_answers: "fst (fetch rq (answers (out # outs))) = out"
  by (simp add: fetch_eq answers_def)

lemma fetch_first:
  "fetch rq (answers (out # outs)) = (out, snd (fetch rq (answers (out # outs))))"
  by (simp add: fst_fetch_answers prod_eq_iff)

lemma fetch_second:
  "fetch rq ((answers (a # out # outs))\<lparr>requests := [rq0]\<rparr>) =
     (out, snd (fetch rq ((answers (a # out # outs))\<lparr>requests := [rq0]\<rparr>)))"
  by (simp add: fetch_eq answers_def prod_eq_iff)

lemma getOpenIDConfig_cases:
  "getOpenIDConfig p w =
     (case config p of
        Some (JsonObject c) \<Rightarrow> (Inr (JsonObject c), p, w)
      | _ \<Rightarrow>
        (case fst (fetch (discovery_request (settings p)) w) of
           Rejected \<Rightarrow> (Inl FetchRejected, p, snd (fetch (discovery_request (settings p)) w))
         | Response r \<Rightarrow>
             (case parsed r of
                None \<Rightarrow> (Inl SyntaxError, p, snd (fetch (discovery_request (settings p)) w))
              | Some c \<Rightarrow> (Inr c, p\<lparr>config := Some c\<rparr>, snd (fetch (discovery_request (settings p)) w)))))"
  by (simp add: getOpenIDConfig_def getOpenIDConfig_begin_def getOpenIDConfig_resume_def
      fetch_def issue_def settle_def
      split: option.splits json.splits fetch_outcome.splits)

lemma getOpenIDConfig_fresh:
  "getOpenIDConfig \<lparr>settings = s, config = None\<rparr> (answers (ok_json c # outs)) =
     (Inr (JsonObject c), \<lparr>settings = s, config = Some (JsonObject c)\<rparr>,
      (answers (ok_json c # outs))\<lparr>requests := [discovery_request s]\<rparr>)"
  by (simp add: getOpenIDConfig_cases fetch_eq answers_def ok_json_def)

lemma getOpenIDConfig_stored:
  "config p = Some (JsonObject c) \<Longrightarrow> getOpenIDConfig p w = (Inr (JsonObject c), p, w)"
  by (simp add: getOpenIDConfig_cases)

lemma getOpenIDConfig_calls_stored:
  "config p = Some (JsonObject c) \<Longrightarrow>
   getOpenIDConfig_calls n p w = (replicate n (Inr (JsonObject c)), p, w)"
  by (induction n) (simp_all add: getOpenIDConfig_stored)

lemma getOpenIDConfig_stores:
  assumes "getOpenIDConfig p w = (Inr (JsonObject c), p1, w1)"
  shows "config p1 = Some (JsonObject c)"
    and "requests w1 = requests w \<or> requests w1 = requests w @ [discovery_request (settings p)]"
  using assms
  by (auto simp: getOpenIDConfig_cases fetch_eq
      split: option.splits json.splits fetch_outcome.splits)

lemma getOpenIDConfig_requests:
  "config p = None \<or> config p = Some JsonNull \<Longrightarrow>
   requests (snd (snd (getOpenIDConfig p w))) = requests w @ [discovery_request (settings p)]"
  by (auto simp: getOpenIDConfig_cases fetch_eq split: fetch_outcome.splits option.splits)

lemma github_getUserInfo_accepted:
  assumes "github_getUserInfo tok w = (Inr profile, w')"
  shows "\<exists>r u. fst (fetch (github_user_request tok) w) = Response r \<and> status r = 200
           \<and> parsed r = Some (JsonObject u) \<and> profile = github_profile u"
  using assms
  by (auto simp: github_getUserInfo_def split: prod.splits fetch_outcome.splits option.splits
      json.splits if_splits)

lemma gitlab_getUserInfo_accepted:
  assumes "gitlab_getUserInfo p tok w = (Inr profile, p', w')"
  shows "\<exists>c w1 r u. getOpenIDConfig p w = (Inr (JsonObject c), p', w1)
           \<and> fetch (gitlab_user_request c tok) w1 = (Response r, w') \<and> status r = 200
           \<and> parsed r = Some (JsonObject u) \<and> profile = gitlab_profile u"
  using assms
  by (auto simp: gitlab_getUserInfo_def split: prod.splits sum.splits fetch_outcome.splits option.splits
      json.splits if_splits)

lemma github_getUserInfo_ok_json:
  "github_getUserInfo tok (answers (ok_json u # outs)) =
     (Inr (github_profile u), (answers (ok_json u # outs))\<lparr>requests := [github_user_request tok]\<rparr>)"
  by (simp add: github_getUserInfo_def fetch_eq answers_def ok_json_def)

lemma gitlab_getUserInfo_ok_json:
  "gitlab_getUserInfo \<lparr>settings = s, config = None\<rparr> tok (answers (ok_json c # ok_json u # outs)) =
     (Inr (gitlab_profile u), \<lparr>settings = s, config = Some (JsonObject c)\<rparr>,
      (answers (ok_json c # ok_json u # outs))
        \<lparr>requests := [discovery_request s, gitlab_user_request c tok]\<rparr>)"
  by (simp add: gitlab_getUserInfo_def getOpenIDConfig_cases fetch_eq answers_def ok_json_def)

lemma github_run:
  "github_getUserInfo ''token'' (answers [ok_json github_user]) =
     (Inr (github_profile github_user),
      (answers [ok_json github_user])\<lparr>requests := [github_user_request ''token'']\<rparr>)"
  by (rule github_getUserInfo_ok_json)

lemma gitlab_run:
  "gitlab_getUserInfo gitlab_example ''token'' (answers [ok_json gitlab_discovery, ok_json gitlab_user]) =
     (Inr (gitlab_profile gitlab_user),
      gitlab_example\<lparr>config := Some (JsonObject gitlab_discovery)\<rparr>,
      (answers [ok_json gitlab_discovery, ok_json gitlab_user])
        \<lparr>requests := [discovery_request (settings gitlab_example),
                       gitlab_user_request gitlab_discovery ''token'']\<rparr>)"
  by (simp add: gitlab_example_def gitlab_getUserInfo_ok_json)

lemma github_payload_delivered:
  "fst (fetch (github_user_request tok) (answers (ok_json u0 # outs))) = Response r \<Longrightarrow>
   parsed r = Some (JsonObject u) \<Longrightarrow> u = u0"
  by (auto simp: fetch_eq answers_def ok_json_def)

lemma gitlab_payload_delivered:
  "getOpenIDConfig \<lparr>settings = s, config = None\<rparr> (answers (ok_json c0 # ok_json u0 # outs))
     = (Inr (JsonObject c), p', w1) \<Longrightarrow>
   fst (fetch (gitlab_user_request c tok) w1) = Response r \<Longrightarrow>
   parsed r = Some (JsonObject u) \<Longrightarrow> u = u0"
  by (auto simp: getOpenIDConfig_cases fetch_eq answers_def ok_json_def)

section \<open>The shape of a returned profile\<close>

lemma is_FederatedProfile_github: "is_FederatedProfile (github_profile u)"
  by (simp add: is_FederatedProfile_def github_profile_def keys_def own_def)

lemma is_FederatedProfile_gitlab: "is_FederatedProfile (gitlab_profile u)"
  by (simp add: is_FederatedProfile_def gitlab_profile_def keys_def own_def)

text \<open>
  C1. Whenever \<^verbatim>\<open>getUserInfo\<close> of the GitHub or of the GitLab provider returns a
  profile, the returned object has the shape of the specification's FederatedProfile:
  exactly the properties \<open>id\<close>, \<open>name\<close>, \<open>display_name\<close>, \<open>picture\<close>, \<open>email\<close>,
  \<open>email_verified\<close> and \<open>other\<close>, with \<open>picture\<close> a list of \<open>url\<close> records and \<open>other\<close>
  an object, whatever properties the payload has.
\<close>

theorem getUserInfo_profile_shape:
  "(github_getUserInfo tok w = (Inr profile, w') \<longrightarrow> is_FederatedProfile profile)
   \<and> (gitlab_getUserInfo p tok w = (Inr profile, p', w') \<longrightarrow> is_FederatedProfile profile)"
  by (auto dest!: github_getUserInfo_accepted gitlab_getUserInfo_accepted
      simp: is_FederatedProfile_github is_FederatedProfile_gitlab)

theorem getUserInfo_profile_shape_witness:
  "(\<exists>w'. github_getUserInfo ''token'' (answers [ok_json github_user])
           = (Inr (github_profile github_user), w'))
   \<and> is_FederatedProfile (github_profile github_user)
   \<and> (\<exists>p' w'. gitlab_getUserInfo gitlab_example ''token''
                 (answers [ok_json gitlab_discovery, ok_json gitlab_user])
               = (Inr (gitlab_profile gitlab_user), p', w'))
   \<and> is_FederatedProfile (gitlab_profile gitlab_user)"
  using getUserInfo_profile_shape [THEN conjunct1, THEN mp, OF github_run]
    getUserInfo_profile_shape [THEN conjunct2, THEN mp, OF gitlab_run]
    github_run gitlab_run
  by simp

section \<open>The other property\<close>

lemma own_other_github:
  "own (github_profile u) ''other''
     = Obj (other_fields [''sub'', ''name'', ''picture'', ''email_verified''] u)"
  by (simp add: github_profile_def own_def)

lemma own_other_gitlab:
  "own (gitlab_profile u) ''other''
     = Obj (other_fields [''sub'', ''name'', ''picture'', ''email'', ''email_verified''] u)"
  by (simp add: gitlab_profile_def own_def)

text \<open>
  C2 as stated does not hold. GitLab's \<open>nickname\<close> becomes the profile's \<open>display_name\<close>
  and is kept in \<open>other\<close> all the same; GitHub's \<open>id\<close>, \<open>avatar_url\<close> and \<open>email\<close> are
  mapped to \<open>id\<close>, \<open>picture\<close> and \<open>email\<close> and are kept in \<open>other\<close> too.
\<close>

theorem other_fields_counterexample:
  "fst (gitlab_getUserInfo gitlab_example ''token'' (answers [ok_json gitlab_discovery, ok_json gitlab_user]))
     = Inr [(''id'', Str ''7''), (''name'', Str ''Mona Lisa''), (''display_name'', Str ''mona''),
            (''picture'', Arr []), (''email'', Str ''mona@example.org''),
            (''email_verified'', Bool True),
            (''other'', Obj [(''nickname'', Str ''mona''), (''website'', Str ''https://example.org'')])]
   \<and> fst (github_getUserInfo ''token'' (answers [ok_json github_user]))
     = Inr [(''id'', Num 7), (''name'', Str ''Mona Lisa''), (''display_name'', Str ''Mona Lisa''),
            (''picture'', Arr [Obj [(''url'', Str ''https://img.example/7.png'')]]),
            (''email'', Null), (''email_verified'', Bool True),
            (''other'', Obj [(''login'', Str ''mona''), (''id'', Num 7),
                             (''avatar_url'', Str ''https://img.example/7.png''),
                             (''email'', Null), (''site_admin'', Bool False)])]"
  unfolding gitlab_run github_run fst_conv
  by (simp add: gitlab_profile_def github_profile_def gitlab_user_def github_user_def
      other_fields_def keys_def own_def js_set_def)

text \<open>
  C2, amended. Whenever \<^verbatim>\<open>getUserInfo\<close> returns a profile, every property of its
  \<open>other\<close> is a property of the payload with the payload's value. For GitLab, \<open>other\<close>
  has none of \<open>sub\<close>, \<open>name\<close>, \<open>picture\<close>, \<open>email\<close>, \<open>email_verified\<close> and has every
  other payload property (so \<open>nickname\<close> stays). For GitHub, \<open>other\<close> has no \<open>name\<close> and
  has every payload property other than \<open>id\<close>, \<open>name\<close>, \<open>avatar_url\<close>, \<open>email\<close>, \<open>sub\<close>,
  \<open>picture\<close>, \<open>email_verified\<close>. Nothing is said here about a payload property called
  \<^verbatim>\<open>__proto__\<close>, nor about GitHub's \<open>id\<close>, \<open>avatar_url\<close>, \<open>email\<close>, \<open>sub\<close>, \<open>picture\<close>
  and \<open>email_verified\<close>.
\<close>

theorem other_fields_kept:
  "(github_getUserInfo tok w = (Inr profile, w') \<longrightarrow>
      (\<exists>r u other. fst (fetch (github_user_request tok) w) = Response r
         \<and> parsed r = Some (JsonObject u) \<and> own profile ''other'' = Obj other
         \<and> (\<forall>k v. map_of other k = Some v \<longrightarrow> map_of u k = Some v)
         \<and> map_of other ''name'' = None
         \<and> (\<forall>k. k \<notin> {''id'', ''name'', ''avatar_url'', ''email'', ''sub'', ''picture'',
                        ''email_verified'', ''__proto__''}
                \<longrightarrow> map_of other k = map_of u k)))
   \<and> (gitlab_getUserInfo p tok w = (Inr profile, p', w') \<longrightarrow>
      (\<exists>c w1 r u other. getOpenIDConfig p w = (Inr (JsonObject c), p', w1)
         \<and> fst (fetch (gitlab_user_request c tok) w1) = Response r
         \<and> parsed r = Some (JsonObject u) \<and> own profile ''other'' = Obj other
         \<and> (\<forall>k v. map_of other k = Some v \<longrightarrow> map_of u k = Some v)
         \<and> (\<forall>k. k \<in> {''sub'', ''name'', ''picture'', ''email'', ''email_verified''}
                \<longrightarrow> map_of other k = None)
         \<and> (\<forall>k. k \<notin> {''sub'', ''name'', ''picture'', ''email'', ''email_verified'', ''__proto__''}
                \<longrightarrow> map_of other k = map_of u k)))"
proof (intro conjI impI)
  assume "github_getUserInfo tok w = (Inr profile, w')"
  then obtain r u where a: "fst (fetch (github_user_request tok) w) = Response r"
    "parsed r = Some (JsonObject u)" "profile = github_profile u"
    using github_getUserInfo_accepted by blast
  let ?other = "other_fields [''sub'', ''name'', ''picture'', ''email_verified''] u"
  have "own profile ''other'' = Obj ?other"
    using a by (simp add: own_other_github)
  moreover have "\<forall>k v. map_of ?other k = Some v \<longrightarrow> map_of u k = Some v"
    by (simp add: map_of_other_fields split: if_splits)
  moreover have "map_of ?other ''name'' = None"
    by (simp add: map_of_other_fields)
  moreover have "\<forall>k. k \<notin> {''id'', ''name'', ''avatar_url'', ''email'', ''sub'', ''picture'',
                        ''email_verified'', ''__proto__''} \<longrightarrow> map_of ?other k = map_of u k"
    by (simp add: map_of_other_fields)
  ultimately show "\<exists>r u other. fst (fetch (github_user_request tok) w) = Response r
         \<and> parsed r = Some (JsonObject u) \<and> own profile ''other'' = Obj other
         \<and> (\<forall>k v. map_of other k = Some v \<longrightarrow> map_of u k = Some v)
         \<and> map_of other ''name'' = None
         \<and> (\<forall>k. k \<notin> {''id'', ''name'', ''avatar_url'', ''email'', ''sub'', ''picture'',
                        ''email_verified'', ''__proto__''}
                \<longrightarrow> map_of other k = map_of u k)"
    using a by blast
next
  assume "gitlab_getUserInfo p tok w = (Inr profile, p', w')"
  then obtain c w1 r u where a: "getOpenIDConfig p w = (Inr (JsonObject c), p', w1)"
    "fst (fetch (gitlab_user_request c tok) w1) = Response r"
    "parsed r = Some (JsonObject u)" "profile = gitlab_profile u"
    using gitlab_getUserInfo_accepted by fastforce
  let ?other = "other_fields [''sub'', ''name'', ''picture'', ''email'', ''email_verified''] u"
  have "own profile ''other'' = Obj ?other"
    using a by (simp add: own_other_gitlab)
  moreover have "\<forall>k v. map_of ?other k = Some v \<longrightarrow> map_of u k = Some v"
    by (simp add: map_of_other_fields split: if_splits)
  moreover have "\<forall>k. k \<in> {''sub'', ''name'', ''picture'', ''email'', ''email_verified''}
                \<longrightarrow> map_of ?other k = None"
    by (simp add: map_of_other_fields)
  moreover have "\<forall>k. k \<notin> {''sub'', ''name'', ''picture'', ''email'', ''email_verified'', ''__proto__''}
                \<longrightarrow> map_of ?other k = map_of u k"
    by (simp add: map_of_other_fields)
  ultimately show "\<exists>c w1 r u other. getOpenIDConfig p w = (Inr (JsonObject c), p', w1)
         \<and> fst (fetch (gitlab_user_request c tok) w1) = Response r
         \<and> parsed r = Some (JsonObject u) \<and> own profile ''other'' = Obj other
         \<and> (\<forall>k v. map_of other k = Some v \<longrightarrow> map_of u k = Some v)
         \<and> (\<forall>k. k \<in> {''sub'', ''name'', ''picture'', ''email'', ''email_verified''}
                \<longrightarrow> map_of other k = None)
         \<and> (\<forall>k. k \<notin> {''sub'', ''name'', ''picture'', ''email'', ''email_verified'', ''__proto__''}
                \<longrightarrow> map_of other k = map_of u k)"
    using a by blast
qed

theorem other_fields_kept_witness:
  "(\<exists>w'. github_getUserInfo ''token'' (answers [ok_json github_user])
           = (Inr (github_profile github_user), w'))
   \<and> (\<exists>other. own (github_profile github_user) ''other'' = Obj other
         \<and> map_of other ''login'' = Some (Str ''mona'') \<and> map_of other ''name'' = None)
   \<and> (\<exists>p' w'. gitlab_getUserInfo gitlab_example ''token''
                 (answers [ok_json gitlab_discovery, ok_json gitlab_user])
               = (Inr (gitlab_profile gitlab_user), p', w'))
   \<and> (\<exists>other. own (gitlab_profile gitlab_user) ''other'' = Obj other
         \<and> map_of other ''website'' = Some (Str ''https://example.org'')
         \<and> map_of other ''nickname'' = Some (Str ''mona'')
         \<and> map_of other ''email'' = None)"
proof -
  from other_fields_kept [THEN conjunct1, THEN mp, OF github_run]
  obtain r u other where gh: "fst (fetch (github_user_request ''token'') (answers [ok_json github_user])) = Response r"
    "parsed r = Some (JsonObject u)" "own (github_profile github_user) ''other'' = Obj other"
    "\<forall>k v. map_of other k = Some v \<longrightarrow> map_of u k = Some v"
    "map_of other ''name'' = None"
    "\<forall>k. k \<notin> {''id'', ''name'', ''avatar_url'', ''email'', ''sub'', ''picture'',
                        ''email_verified'', ''__proto__''} \<longrightarrow> map_of other k = map_of u k"
    by (elim exE conjE)
  from gh(1,2) have "u = github_user"
    by (rule github_payload_delivered)
  with gh(6) [rule_format, of "''login''"] have "map_of other ''login'' = Some (Str ''mona'')"
    by (simp add: github_user_def)
  with gh(3,5) have A: "\<exists>other. own (github_profile github_user) ''other'' = Obj other
         \<and> map_of other ''login'' = Some (Str ''mona'') \<and> map_of other ''name'' = None"
    by (intro exI [of _ other] conjI)
  from other_fields_kept [THEN conjunct2, THEN mp, OF gitlab_run]
  obtain c w1 r' u' other' where gl:
    "getOpenIDConfig gitlab_example (answers [ok_json gitlab_discovery, ok_json gitlab_user])
       = (Inr (JsonObject c), gitlab_example\<lparr>config := Some (JsonObject gitlab_discovery)\<rparr>, w1)"
    "fst (fetch (gitlab_user_request c ''token'') w1) = Response r'"
    "parsed r' = Some (JsonObject u')" "own (gitlab_profile gitlab_user) ''other'' = Obj other'"
    "\<forall>k v. map_of other' k = Some v \<longrightarrow> map_of u' k = Some v"
    "\<forall>k. k \<in> {''sub'', ''name'', ''picture'', ''email'', ''email_verified''} \<longrightarrow> map_of other' k = None"
    "\<forall>k. k \<notin> {''sub'', ''name'', ''picture'', ''email'', ''email_verified'', ''__proto__''}
                \<longrightarrow> map_of other' k = map_of u' k"
    by (elim exE conjE)
  from gl(1) [unfolded gitlab_example_def] gl(2,3) have "u' = gitlab_user"
    by (rule gitlab_payload_delivered)
  with gl(6) [rule_format, of "''email''"] gl(7) [rule_format, of "''website''"]
    gl(7) [rule_format, of "''nickname''"]
  have "map_of other' ''website'' = Some (Str ''https://example.org'')"
    "map_of other' ''nickname'' = Some (Str ''mona'')" "map_of other' ''email'' = None"
    by (simp_all add: gitlab_user_def)
  with gl(4) have B: "\<exists>other. own (gitlab_profile gitlab_user) ''other'' = Obj other
         \<and> map_of other ''website'' = Some (Str ''https://example.org'')
         \<and> map_of other ''nickname'' = Some (Str ''mona'')
         \<and> map_of other ''email'' = None"
    by (intro exI [of _ other'] conjI)
  from A B github_run gitlab_run show ?thesis
    by simp
qed

section \<open>Failures of the token exchange and of the profile fetch\<close>

text \<open>
  C3 as stated does not hold. The token exchange answered with status 401 and a body
  without an \<open>error\<close> property returns that body and does not fail. The token exchange
  answered with an error payload fails with the error code alone as its message; the
  description is not carried. The profile fetch answered with status 200 and an error
  payload returns a profile and does not fail.
\<close>

theorem provider_failures_counterexample:
  "fst (github_getAccessToken github_example (AuthCode ''code'' ''https://app.example/cb'')
          (answers [unauthorized [(''message'', Str ''Bad credentials'')]]))
     = Inr [(''message'', Str ''Bad credentials'')]
   \<and> fst (github_getAccessToken github_example (AuthCode ''code'' ''https://app.example/cb'')
          (answers [ok_json error_payload]))
     = Inl (Error [Val (Str ''invalid_grant'')])
   \<and> fst (github_getUserInfo ''token'' (answers [ok_json error_payload]))
     = Inr [(''id'', Undefined), (''name'', Undefined), (''display_name'', Undefined),
            (''picture'', Arr []), (''email'', Undefined), (''email_verified'', Bool True),
            (''other'', Obj error_payload)]"
  by (simp add: github_getAccessToken_def github_getUserInfo_def fetch_eq answers_def unauthorized_def
      ok_json_def error_payload_def own_def github_profile_def other_fields_def keys_def js_set_def)

text \<open>
  C3, amended. For a response whose body is a JSON object: \<^verbatim>\<open>getAccessToken\<close> fails
  exactly when the body has a truthy \<open>error\<close> property, whatever the status, and the error
  carries that error code only; otherwise it returns the parsed body (the GitLab provider
  after setting \<open>expires\<close> on it). \<^verbatim>\<open>getUserInfo\<close> fails exactly when the status is
  not 200, whatever the body, and the error carries the body's \<open>error\<close> and
  \<open>error_description\<close>; otherwise it returns the normalized profile of the body.
\<close>

theorem provider_failures:
  "(fetch (github_token_request s params) w = (Response r, w') \<and> parsed r = Some (JsonObject result) \<longrightarrow>
      github_getAccessToken s params w =
        (if truthy (own result ''error'') then Inl (Error [Val (own result ''error'')])
         else Inr result, w'))
   \<and> (fetch (github_user_request tok) w = (Response r, w') \<and> parsed r = Some (JsonObject result) \<longrightarrow>
      github_getUserInfo tok w =
        (if status r \<noteq> 200
         then Inl (Error [Val (own result ''error''), Lit '': '', Val (own result ''error_description'')])
         else Inr (github_profile result), w'))
   \<and> (getOpenIDConfig p w = (Inr (JsonObject c), p1, w1)
       \<and> fetch (gitlab_token_request (settings p1) c params) w1 = (Response r, w')
       \<and> parsed r = Some (JsonObject result) \<longrightarrow>
      gitlab_getAccessToken now p params w =
        (if truthy (own result ''error'') then Inl (Error [Val (own result ''error'')])
         else Inr (js_set result ''expires'' (DateAfter now (own result ''expires_in''))), p1, w'))
   \<and> (getOpenIDConfig p w = (Inr (JsonObject c), p1, w1)
       \<and> fetch (gitlab_user_request c tok) w1 = (Response r, w')
       \<and> parsed r = Some (JsonObject result) \<longrightarrow>
      gitlab_getUserInfo p tok w =
        (if status r \<noteq> 200
         then Inl (Error [Val (own result ''error''), Lit '': '', Val (own result ''error_description'')])
         else Inr (gitlab_profile result), p1, w'))"
  by (simp add: github_getAccessToken_def github_getUserInfo_def gitlab_getAccessToken_def
      gitlab_getUserInfo_def provider_error_def)

theorem provider_failures_witness:
  "fst (github_getAccessToken github_example (Refresh ''r1'') (answers [ok_json error_payload]))
     = Inl (Error [Val (Str ''invalid_grant'')])
   \<and> fst (github_getUserInfo ''token'' (answers [unauthorized error_payload]))
     = Inl (Error [Val (Str ''invalid_grant''), Lit '': '', Val (Str ''The code is incorrect or expired'')])
   \<and> fst (gitlab_getAccessToken 1000 gitlab_example (Refresh ''r1'')
          (answers [ok_json gitlab_discovery, ok_json [(''access_token'', Str ''t1''), (''expires_in'', Num 3600)]]))
     = Inr [(''access_token'', Str ''t1''), (''expires_in'', Num 3600), (''expires'', DateAfter 1000 (Num 3600))]
   \<and> fst (gitlab_getUserInfo gitlab_example ''token'' (answers [ok_json gitlab_discovery, unauthorized error_payload]))
     = Inl (Error [Val (Str ''invalid_grant''), Lit '': '', Val (Str ''The code is incorrect or expired'')])"
proof -
  let ?r200 = "\<lparr>status = 200, parsed = Some (JsonObject error_payload)\<rparr>"
  let ?r401 = "\<lparr>status = 401, parsed = Some (JsonObject error_payload)\<rparr>"
  let ?tok = "[(''access_token'', Str ''t1''), (''expires_in'', Num 3600)]"
  let ?rtok = "\<lparr>status = 200, parsed = Some (JsonObject ?tok)\<rparr>"
  let ?p1 = "\<lparr>settings = settings gitlab_example, config = Some (JsonObject gitlab_discovery)\<rparr>"
  have a: "fetch (github_token_request github_example (Refresh ''r1'')) (answers [ok_json error_payload])
             = (Response ?r200, snd (fetch (github_token_request github_example (Refresh ''r1''))
                                       (answers [ok_json error_payload])))
           \<and> parsed ?r200 = Some (JsonObject error_payload)"
    using fetch_first [of _ "ok_json error_payload" "[]"] by (simp add: ok_json_def)
  have b: "fetch (github_user_request ''token'') (answers [unauthorized error_payload])
             = (Response ?r401, snd (fetch (github_user_request ''token'') (answers [unauthorized error_payload])))
           \<and> parsed ?r401 = Some (JsonObject error_payload)"
    using fetch_first [of _ "unauthorized error_payload" "[]"] by (simp add: unauthorized_def)
  have c: "getOpenIDConfig gitlab_example (answers [ok_json gitlab_discovery, ok_json ?tok])
             = (Inr (JsonObject gitlab_discovery), ?p1,
                (answers [ok_json gitlab_discovery, ok_json ?tok])
                  \<lparr>requests := [discovery_request (settings gitlab_example)]\<rparr>)
           \<and> fetch (gitlab_token_request (settings ?p1) gitlab_discovery (Refresh ''r1''))
                ((answers [ok_json gitlab_discovery, ok_json ?tok])
                  \<lparr>requests := [discovery_request (settings gitlab_example)]\<rparr>)
             = (Response ?rtok,
                snd (fetch (gitlab_token_request (settings ?p1) gitlab_discovery (Refresh ''r1''))
                  ((answers [ok_json gitlab_discovery, ok_json ?tok])
                    \<lparr>requests := [discovery_request (settings gitlab_example)]\<rparr>)))
           \<and> parsed ?rtok = Some (JsonObject ?tok)"
    using getOpenIDConfig_fresh [of "settings gitlab_example" gitlab_discovery "[ok_json ?tok]"]
      fetch_second [where a = "ok_json gitlab_discovery" and out = "ok_json ?tok" and outs = "[]"]
    by (simp add: gitlab_example_def ok_json_def)
  have d: "getOpenIDConfig gitlab_example (answers [ok_json gitlab_discovery, unauthorized error_payload])
             = (Inr (JsonObject gitlab_discovery), ?p1,
                (answers [ok_json gitlab_discovery, unauthorized error_payload])
                  \<lparr>requests := [discovery_request (settings gitlab_example)]\<rparr>)
           \<and> fetch (gitlab_user_request gitlab_discovery ''token'')
                ((answers [ok_json gitlab_discovery, unauthorized error_payload])
                  \<lparr>requests := [discovery_request (settings gitlab_example)]\<rparr>)
             = (Response ?r401,
                snd (fetch (gitlab_user_request gitlab_discovery ''token'')
                  ((answers [ok_json gitlab_discovery, unauthorized error_payload])
                    \<lparr>requests := [discovery_request (settings gitlab_example)]\<rparr>)))
           \<and> parsed ?r401 = Some (JsonObject error_payload)"
    using getOpenIDConfig_fresh [of "settings gitlab_example" gitlab_discovery "[unauthorized error_payload]"]
      fetch_second [where a = "ok_json gitlab_discovery" and out = "unauthorized error_payload" and outs = "[]"]
    by (simp add: gitlab_example_def unauthorized_def)
  show ?thesis
    using provider_failures [THEN conjunct1, THEN mp, OF a]
      provider_failures [THEN conjunct2, THEN conjunct1, THEN mp, OF b]
      provider_failures [THEN conjunct2, THEN conjunct2, THEN conjunct1, THEN mp, OF c, of 1000]
      provider_failures [THEN conjunct2, THEN conjunct2, THEN conjunct2, THEN mp, OF d]
    by (simp add: own_def error_payload_def js_set_def)
qed

section \<open>The authorization URL\<close>

text \<open>
  C4 as stated does not hold for the GitLab provider. \<^verbatim>\<open>init\<close> on a fresh instance
  issues the discovery request, and the URL it returns starts with the
  \<open>authorization_endpoint\<close> of the answer: the same settings and input give two different
  URLs under two different answers of the network.
\<close>

theorem init_counterexample:
  "fst (gitlab_init gitlab_example init_info_example
          (answers [ok_json [(''authorization_endpoint'', Str ''https://a.example/authorize'')]]))
     = Inr [Val (Str ''https://a.example/authorize''),
            Lit ''?response_type=code&access_type=offline&include_granted_scopes=true&client_id=app&scope=email%20profile%20openid&redirect_uri=https%3A%2F%2Fapp.example%2Fcb&state=s%201'']
   \<and> fst (gitlab_init gitlab_example init_info_example
          (answers [ok_json [(''authorization_endpoint'', Str ''https://b.example/authorize'')]]))
     = Inr [Val (Str ''https://b.example/authorize''),
            Lit ''?response_type=code&access_type=offline&include_granted_scopes=true&client_id=app&scope=email%20profile%20openid&redirect_uri=https%3A%2F%2Fapp.example%2Fcb&state=s%201'']
   \<and> requests (snd (snd (gitlab_init gitlab_example init_info_example
          (answers [ok_json [(''authorization_endpoint'', Str ''https://a.example/authorize'')]]))))
     = [\<lparr>url = Str ''https://gitlab.example/.well-known/openid-configuration'', options = None\<rparr>]"
  by code_simp

lemma github_init_pure: "github_init s info w = (fst (github_init s info w0), w)"
  by (simp add: github_init_def split: option.splits)

lemma gitlab_init_cached:
  "config p = Some (JsonObject c) \<Longrightarrow> gitlab_init p info w = (fst (gitlab_init p info w0), p, w)"
  by (simp add: gitlab_init_def getOpenIDConfig_cases split: option.splits)

lemma gitlab_init_world: "snd (snd (gitlab_init p info w)) = snd (snd (getOpenIDConfig p w))"
  by (simp add: gitlab_init_def split: prod.splits sum.splits json.splits option.splits)

lemma gitlab_init_fetched:
  assumes "config p = None \<or> config p = Some JsonNull"
    and "fst (fetch (discovery_request (settings p)) w) = Response r"
    and "parsed r = Some (JsonObject c)"
  shows "fst (gitlab_init p info w) = fst (gitlab_init (p\<lparr>config := Some (JsonObject c)\<rparr>) info w0)"
  using assms
  by (auto simp: gitlab_init_def getOpenIDConfig_cases split: option.splits)

text \<open>
  C4, amended. The GitHub provider's \<^verbatim>\<open>init\<close> issues no request and returns a URL that
  depends on the settings and the input alone. The GitLab provider's \<^verbatim>\<open>init\<close> does the
  same once the instance holds a discovery document, the URL depending on the settings,
  the input and that document. On an instance that holds none it issues exactly one
  request, the discovery request, and when that is answered with a JSON object the URL is
  the one an instance holding that object returns.
\<close>

theorem init_urls:
  "github_init s info w = (fst (github_init s info w0), w)
   \<and> (config p = Some (JsonObject c) \<longrightarrow> gitlab_init p info w = (fst (gitlab_init p info w0), p, w))
   \<and> (config p = None \<or> config p = Some JsonNull \<longrightarrow>
        requests (snd (snd (gitlab_init p info w))) = requests w @ [discovery_request (settings p)])
   \<and> ((config p = None \<or> config p = Some JsonNull)
        \<and> fst (fetch (discovery_request (settings p)) w) = Response r
        \<and> parsed r = Some (JsonObject c) \<longrightarrow>
        fst (gitlab_init p info w) = fst (gitlab_init (p\<lparr>config := Some (JsonObject c)\<rparr>) info w0))"
  using github_init_pure [of s info w w0] gitlab_init_cached [of p c info w w0]
    getOpenIDConfig_requests [of p w] gitlab_init_world [of p info w]
    gitlab_init_fetched [of p w r c info w0]
  by simp

theorem init_urls_witness:
  "github_init github_example init_info_example (answers [ok_json gitlab_discovery])
     = (fst (github_init github_example init_info_example (answers [])), answers [ok_json gitlab_discovery])
   \<and> config (gitlab_example\<lparr>config := Some (JsonObject gitlab_discovery)\<rparr>)
       = Some (JsonObject gitlab_discovery)
   \<and> gitlab_init (gitlab_example\<lparr>config := Some (JsonObject gitlab_discovery)\<rparr>) init_info_example
         (answers [not_json 500])
     = (fst (gitlab_init (gitlab_example\<lparr>config := Some (JsonObject gitlab_discovery)\<rparr>)
               init_info_example (answers [])),
        gitlab_example\<lparr>config := Some (JsonObject gitlab_discovery)\<rparr>, answers [not_json 500])
   \<and> config gitlab_example = None
   \<and> requests (snd (snd (gitlab_init gitlab_example init_info_example (answers [ok_json gitlab_discovery]))))
     = [discovery_request (settings gitlab_example)]
   \<and> fst (gitlab_init gitlab_example init_info_example (answers [ok_json gitlab_discovery]))
     = fst (gitlab_init (gitlab_example\<lparr>config := Some (JsonObject gitlab_discovery)\<rparr>)
              init_info_example (answers []))"
proof -
  have cached: "config (gitlab_example\<lparr>config := Some (JsonObject gitlab_discovery)\<rparr>)
       = Some (JsonObject gitlab_discovery)"
    by simp
  have fresh: "config gitlab_example = None"
    by (simp add: gitlab_example_def)
  have delivered: "fst (fetch (discovery_request (settings gitlab_example)) (answers [ok_json gitlab_discovery]))
      = Response \<lparr>status = 200, parsed = Some (JsonObject gitlab_discovery)\<rparr>
    \<and> parsed \<lparr>status = 200, parsed = Some (JsonObject gitlab_discovery)\<rparr> = Some (JsonObject gitlab_discovery)"
    by (simp add: fst_fetch_answers ok_json_def)
  have none: "requests (answers [ok_json gitlab_discovery]) = []"
    by (simp add: answers_def)
  note all = init_urls [where s = github_example and info = init_info_example
      and w = "answers [ok_json gitlab_discovery]" and ?w0.0 = "answers []"]
  note cachedI = init_urls [where p = "gitlab_example\<lparr>config := Some (JsonObject gitlab_discovery)\<rparr>"
      and c = gitlab_discovery and info = init_info_example and w = "answers [not_json 500]"
      and ?w0.0 = "answers []"]
  note freshI = init_urls [where p = gitlab_example and c = gitlab_discovery and info = init_info_example
      and w = "answers [ok_json gitlab_discovery]" and ?w0.0 = "answers []"
      and r = "\<lparr>status = 200, parsed = Some (JsonObject gitlab_discovery)\<rparr>"]
  show ?thesis
    using all [THEN conjunct1]
      cachedI [THEN conjunct2, THEN conjunct1, THEN mp, OF cached]
      freshI [THEN conjunct2, THEN conjunct2, THEN conjunct1, THEN mp, OF disjI1, OF fresh]
      freshI [THEN conjunct2, THEN conjunct2, THEN conjunct2, THEN mp, OF conjI, OF disjI1, OF fresh delivered]
      cached fresh none
    by simp
qed

section \<open>The picture list\<close>

text \<open>
  C5. Whenever \<^verbatim>\<open>getUserInfo\<close> returns a profile, its \<open>picture\<close> is determined by the
  payload's \<open>avatar_url\<close> (GitHub) or \<open>picture\<close> (GitLab): the empty list when that
  property is absent or empty, and otherwise the list with the one record
  \<^verbatim>\<open>{url: value}\<close>.
\<close>

theorem getUserInfo_picture:
  "(github_getUserInfo tok w = (Inr profile, w') \<longrightarrow>
      (\<exists>r u. fst (fetch (github_user_request tok) w) = Response r \<and> parsed r = Some (JsonObject u)
         \<and> own profile ''picture'' = expected_picture (map_of u ''avatar_url'')))
   \<and> (gitlab_getUserInfo p tok w = (Inr profile, p', w') \<longrightarrow>
      (\<exists>c w1 r u. getOpenIDConfig p w = (Inr (JsonObject c), p', w1)
         \<and> fst (fetch (gitlab_user_request c tok) w1) = Response r \<and> parsed r = Some (JsonObject u)
         \<and> own profile ''picture'' = expected_picture (map_of u ''picture'')))"
proof (intro conjI impI)
  assume "github_getUserInfo tok w = (Inr profile, w')"
  then obtain r u where a: "fst (fetch (github_user_request tok) w) = Response r"
    "parsed r = Some (JsonObject u)" "profile = github_profile u"
    using github_getUserInfo_accepted by blast
  have "own (github_profile u) ''picture'' = expected_picture (map_of u ''avatar_url'')"
    using picture_expected [of u "''avatar_url''"] by (simp add: github_profile_def own_def)
  with a show "\<exists>r u. fst (fetch (github_user_request tok) w) = Response r \<and> parsed r = Some (JsonObject u)
         \<and> own profile ''picture'' = expected_picture (map_of u ''avatar_url'')"
    by blast
next
  assume "gitlab_getUserInfo p tok w = (Inr profile, p', w')"
  then obtain c w1 r u where a: "getOpenIDConfig p w = (Inr (JsonObject c), p', w1)"
    "fetch (gitlab_user_request c tok) w1 = (Response r, w')"
    "parsed r = Some (JsonObject u)" "profile = gitlab_profile u"
    using gitlab_getUserInfo_accepted by blast
  have "own (gitlab_profile u) ''picture'' = expected_picture (map_of u ''picture'')"
    using picture_expected [of u "''picture''"] by (simp add: gitlab_profile_def own_def)
  with a show "\<exists>c w1 r u. getOpenIDConfig p w = (Inr (JsonObject c), p', w1)
         \<and> fst (fetch (gitlab_user_request c tok) w1) = Response r \<and> parsed r = Some (JsonObject u)
         \<and> own profile ''picture'' = expected_picture (map_of u ''picture'')"
    by fastforce
qed

theorem getUserInfo_picture_witness:
  "(\<exists>w'. github_getUserInfo ''token'' (answers [ok_json github_user])
           = (Inr (github_profile github_user), w'))
   \<and> own (github_profile github_user) ''picture'' = Arr [Obj [(''url'', Str ''https://img.example/7.png'')]]
   \<and> (\<exists>p' w'. gitlab_getUserInfo gitlab_example ''token''
                 (answers [ok_json gitlab_discovery, ok_json gitlab_user])
               = (Inr (gitlab_profile gitlab_user), p', w'))
   \<and> own (gitlab_profile gitlab_user) ''picture'' = Arr []"
proof -
  from getUserInfo_picture [THEN conjunct1, THEN mp, OF github_run]
  have "own (github_profile github_user) ''picture'' = expected_picture (map_of github_user ''avatar_url'')"
    by (simp add: fetch_eq answers_def ok_json_def)
  moreover
  from getUserInfo_picture [THEN conjunct2, THEN mp, OF gitlab_run]
  have "own (gitlab_profile gitlab_user) ''picture'' = expected_picture (map_of gitlab_user ''picture'')"
    by (auto simp: fetch_eq answers_def ok_json_def gitlab_example_def getOpenIDConfig_cases)
  ultimately show ?thesis
    using github_run gitlab_run
    by (simp add: expected_picture_def github_user_def gitlab_user_def)
qed

section \<open>The discovery document\<close>

text \<open>
  C6 as stated does not hold. When the first discovery fetch is answered with a body that
  is not JSON, the call throws before anything is stored, and the next call on the same
  instance fetches again: two discovery requests from one instance. And when a second
  call begins while the first is still waiting for its answer, both find \<^verbatim>\<open>_config\<close>
  unset and both issue the request.
\<close>

theorem discovery_fetch_counterexample:
  "fst (getOpenIDConfig_calls 2 gitlab_example (answers [not_json 404, ok_json gitlab_discovery]))
     = [Inl SyntaxError, Inr (JsonObject gitlab_discovery)]
   \<and> requests (snd (snd (getOpenIDConfig_calls 2 gitlab_example
                            (answers [not_json 404, ok_json gitlab_discovery]))))
     = [discovery_request (settings gitlab_example), discovery_request (settings gitlab_example)]
   \<and> (case getOpenIDConfig_begin gitlab_example (answers [ok_json gitlab_discovery, ok_json gitlab_discovery]) of
        (first, w1) \<Rightarrow>
          (case getOpenIDConfig_begin gitlab_example w1 of
             (second, w2) \<Rightarrow> (first, second, requests w2)))
     = (Inr 0, Inr 1, [discovery_request (settings gitlab_example), discovery_request (settings gitlab_example)])"
  by code_simp

lemma step_Begin_stored:
  "config (provider s) = Some (JsonObject c) \<Longrightarrow> step Begin s = Some (Returned (Inr (JsonObject c)), s)"
  by (simp add: step_def getOpenIDConfig_begin_def)

lemma step_Begin_unset:
  "config (provider s) = None \<or> config (provider s) = Some JsonNull \<Longrightarrow>
   step Begin s =
     Some (Suspended (length (requests (outside s))),
           s\<lparr>outside := (outside s)\<lparr>requests := requests (outside s)
                                          @ [discovery_request (settings (provider s))]\<rparr>,
             waiting := waiting s @ [length (requests (outside s))]\<rparr>)"
  by (auto simp: step_def getOpenIDConfig_begin_def issue_def)

lemma step_Resume_waiting:
  "t \<in> set (waiting s) \<Longrightarrow>
   step (Resume t) s =
     (case network (outside s) t (discovery_request (settings (provider s))) of
        Rejected \<Rightarrow> Some (Returned (Inl FetchRejected), s\<lparr>waiting := removeAll t (waiting s)\<rparr>)
      | Response r \<Rightarrow>
          (case parsed r of
             None \<Rightarrow> Some (Returned (Inl SyntaxError), s\<lparr>waiting := removeAll t (waiting s)\<rparr>)
           | Some d \<Rightarrow>
               Some (Returned (Inr d),
                     s\<lparr>provider := (provider s)\<lparr>config := Some d\<rparr>,
                       waiting := removeAll t (waiting s)\<rparr>)))"
  by (simp add: step_def getOpenIDConfig_resume_def settle_def
      split: fetch_outcome.splits option.splits)

lemma step_Resume_idle: "t \<notin> set (waiting s) \<Longrightarrow> step (Resume t) s = None"
  by (simp add: step_def)

lemma run_stored:
  assumes "config (provider s) = Some (JsonObject c)" and "waiting s = []"
  shows "run es s =
     (if list_all (\<lambda>e. e = Begin) es
      then Some (replicate (length es) (Returned (Inr (JsonObject c))), s) else None)"
proof (induction es)
  case Nil
  show ?case by simp
next
  case (Cons e es)
  show ?case
  proof (cases e)
    case Begin
    with Cons assms show ?thesis
      by (simp add: step_Begin_stored)
  next
    case (Resume t)
    with assms show ?thesis
      by (simp add: step_Resume_idle)
  qed
qed

lemma getOpenIDConfig_alone_stored:
  "config p = Some (JsonObject c) \<Longrightarrow>
   run [Begin] (fresh_session p w) = Some ([Returned (Inr (JsonObject c))], fresh_session p w)
   \<and> getOpenIDConfig p w = (Inr (JsonObject c), p, w)"
  by (simp add: step_Begin_stored fresh_session_def getOpenIDConfig_stored)

lemma getOpenIDConfig_alone_unset:
  assumes "config p = None \<or> config p = Some JsonNull"
  shows "\<exists>r s'. run [Begin, Resume (length (requests w))] (fresh_session p w)
             = Some ([Suspended (length (requests w)), Returned r], s')
           \<and> getOpenIDConfig p w = (r, provider s', outside s')
           \<and> waiting s' = []
           \<and> requests (outside s') = requests w @ [discovery_request (settings p)]"
  using assms
  by (auto simp: step_Begin_unset step_Resume_waiting fresh_session_def getOpenIDConfig_cases fetch_eq
      split: fetch_outcome.splits option.splits)

text \<open>
  C6, amended. A call of \<^verbatim>\<open>getOpenIDConfig\<close> on an instance that holds a discovery
  document (a JSON object) returns that document at once, without issuing a request and
  without changing anything. So once the instance holds a document and no call is
  suspended on its fetch, every later call returns that document without issuing a
  request, at whatever later time and whatever the network would answer. A call on an
  instance that holds no document (or a stored \<^verbatim>\<open>null\<close>) issues one discovery request
  and is suspended on it, whether or not other calls are already suspended. When its fetch
  is answered with JSON, the resumed call stores that body, replacing what is stored, and
  returns it; when the fetch is rejected or the answer is not JSON, the call fails and
  stores nothing, so that a later call fetches again. A call that runs alone, with no
  other call suspended, issues at most one request, and once it has returned a document
  the calls made after it, one after the other, all return that document without issuing
  a request.
\<close>

theorem discovery_document_kept:
  "(config (provider s) = Some (JsonObject c) \<longrightarrow>
      step Begin s = Some (Returned (Inr (JsonObject c)), s))
   \<and> (config (provider s) = Some (JsonObject c) \<and> waiting s = [] \<longrightarrow>
      run es s =
        (if list_all (\<lambda>e. e = Begin) es
         then Some (replicate (length es) (Returned (Inr (JsonObject c))), s) else None))
   \<and> (config (provider s) = None \<or> config (provider s) = Some JsonNull \<longrightarrow>
      step Begin s =
        Some (Suspended (length (requests (outside s))),
              s\<lparr>outside := (outside s)\<lparr>requests := requests (outside s)
                                             @ [discovery_request (settings (provider s))]\<rparr>,
                waiting := waiting s @ [length (requests (outside s))]\<rparr>))
   \<and> (t \<in> set (waiting s) \<longrightarrow>
      step (Resume t) s =
        (case network (outside s) t (discovery_request (settings (provider s))) of
           Rejected \<Rightarrow> Some (Returned (Inl FetchRejected), s\<lparr>waiting := removeAll t (waiting s)\<rparr>)
         | Response r \<Rightarrow>
             (case parsed r of
                None \<Rightarrow> Some (Returned (Inl SyntaxError), s\<lparr>waiting := removeAll t (waiting s)\<rparr>)
              | Some d \<Rightarrow>
                  Some (Returned (Inr d),
                        s\<lparr>provider := (provider s)\<lparr>config := Some d\<rparr>,
                          waiting := removeAll t (waiting s)\<rparr>))))
   \<and> (t \<notin> set (waiting s) \<longrightarrow> step (Resume t) s = None)
   \<and> (config p = Some (JsonObject c) \<longrightarrow>
      run [Begin] (fresh_session p w) = Some ([Returned (Inr (JsonObject c))], fresh_session p w)
      \<and> getOpenIDConfig p w = (Inr (JsonObject c), p, w))
   \<and> (config p = None \<or> config p = Some JsonNull \<longrightarrow>
      (\<exists>r s'. run [Begin, Resume (length (requests w))] (fresh_session p w)
                = Some ([Suspended (length (requests w)), Returned r], s')
         \<and> getOpenIDConfig p w = (r, provider s', outside s')
         \<and> waiting s' = []
         \<and> requests (outside s') = requests w @ [discovery_request (settings p)]))
   \<and> (getOpenIDConfig p w = (Inr (JsonObject c), p1, w1) \<longrightarrow>
      config p1 = Some (JsonObject c)
      \<and> (requests w1 = requests w \<or> requests w1 = requests w @ [discovery_request (settings p)])
      \<and> getOpenIDConfig_calls n p1 w2 = (replicate n (Inr (JsonObject c)), p1, w2))"
proof (intro conjI impI)
  show "config (provider s) = Some (JsonObject c) \<Longrightarrow>
      step Begin s = Some (Returned (Inr (JsonObject c)), s)"
    by (rule step_Begin_stored)
  show "config (provider s) = Some (JsonObject c) \<and> waiting s = [] \<Longrightarrow>
      run es s =
        (if list_all (\<lambda>e. e = Begin) es
         then Some (replicate (length es) (Returned (Inr (JsonObject c))), s) else None)"
    by (simp add: run_stored)
  show "config (provider s) = None \<or> config (provider s) = Some JsonNull \<Longrightarrow>
      step Begin s =
        Some (Suspended (length (requests (outside s))),
              s\<lparr>outside := (outside s)\<lparr>requests := requests (outside s)
                                             @ [discovery_request (settings (provider s))]\<rparr>,
                waiting := waiting s @ [length (requests (outside s))]\<rparr>)"
    by (rule step_Begin_unset)
  show "t \<in> set (waiting s) \<Longrightarrow>
      step (Resume t) s =
        (case network (outside s) t (discovery_request (settings (provider s))) of
           Rejected \<Rightarrow> Some (Returned (Inl FetchRejected), s\<lparr>waiting := removeAll t (waiting s)\<rparr>)
         | Response r \<Rightarrow>
             (case parsed r of
                None \<Rightarrow> Some (Returned (Inl SyntaxError), s\<lparr>waiting := removeAll t (waiting s)\<rparr>)
              | Some d \<Rightarrow>
                  Some (Returned (Inr d),
                        s\<lparr>provider := (provider s)\<lparr>config := Some d\<rparr>,
                          waiting := removeAll t (waiting s)\<rparr>)))"
    by (rule step_Resume_waiting)
  show "t \<notin> set (waiting s) \<Longrightarrow> step (Resume t) s = None"
    by (rule step_Resume_idle)
  show "config p = Some (JsonObject c) \<Longrightarrow>
      run [Begin] (fresh_session p w) = Some ([Returned (Inr (JsonObject c))], fresh_session p w)"
    using getOpenIDConfig_alone_stored [of p c w] by blast
  show "config p = Some (JsonObject c) \<Longrightarrow> getOpenIDConfig p w = (Inr (JsonObject c), p, w)"
    by (rule getOpenIDConfig_stored)
  show "config p = None \<or> config p = Some JsonNull \<Longrightarrow>
      \<exists>r s'. run [Begin, Resume (length (requests w))] (fresh_session p w)
                = Some ([Suspended (length (requests w)), Returned r], s')
         \<and> getOpenIDConfig p w = (r, provider s', outside s')
         \<and> waiting s' = []
         \<and> requests (outside s') = requests w @ [discovery_request (settings p)]"
    by (rule getOpenIDConfig_alone_unset)
  show "getOpenIDConfig p w = (Inr (JsonObject c), p1, w1) \<Longrightarrow> config p1 = Some (JsonObject c)"
    by (rule getOpenIDConfig_stores(1))
  show "getOpenIDConfig p w = (Inr (JsonObject c), p1, w1) \<Longrightarrow>
      requests w1 = requests w \<or> requests w1 = requests w @ [discovery_request (settings p)]"
    by (rule getOpenIDConfig_stores(2))
  show "getOpenIDConfig p w = (Inr (JsonObject c), p1, w1) \<Longrightarrow>
      getOpenIDConfig_calls n p1 w2 = (replicate n (Inr (JsonObject c)), p1, w2)"
    by (simp add: getOpenIDConfig_stores(1) getOpenIDConfig_calls_stored)
qed

lemma session_of_simps:
  "config (provider (session_of stored w rqs ts)) = stored"
  "waiting (session_of stored w rqs ts) = ts"
  "requests (outside (session_of stored w rqs ts)) = rqs"
  "network (outside (session_of stored w rqs ts)) = network w"
  "discovery_request (settings (provider (session_of stored w rqs ts))) = discovery_example"
  by (simp_all add: session_of_def discovery_request_def discovery_example_def gitlab_constructor_def)

lemma session_of_updates:
  "(session_of stored w rqs ts)\<lparr>waiting := ts'\<rparr> = session_of stored w rqs ts'"
  "(session_of stored w rqs ts)\<lparr>provider := (provider (session_of stored w rqs ts))\<lparr>config := stored'\<rparr>,
       waiting := ts'\<rparr> = session_of stored' w rqs ts'"
  "(session_of stored w rqs ts)\<lparr>outside := (outside (session_of stored w rqs ts))\<lparr>requests := rqs'\<rparr>,
       waiting := ts'\<rparr> = session_of stored w rqs' ts'"
  by (simp_all add: session_of_def)

theorem discovery_document_kept_witness:
  "step Begin (session_of None (answers [ok_json gitlab_discovery, ok_json gitlab_discovery_moved]) [] [])
     = Some (Suspended 0,
         session_of None (answers [ok_json gitlab_discovery, ok_json gitlab_discovery_moved])
           [discovery_example] [0])
   \<and> step Begin (session_of None (answers [ok_json gitlab_discovery, ok_json gitlab_discovery_moved])
           [discovery_example] [0])
     = Some (Suspended 1,
         session_of None (answers [ok_json gitlab_discovery, ok_json gitlab_discovery_moved])
           [discovery_example, discovery_example] [0, 1])
   \<and> step (Resume 0) (session_of None (answers [ok_json gitlab_discovery, ok_json gitlab_discovery_moved])
           [discovery_example, discovery_example] [0, 1])
     = Some (Returned (Inr (JsonObject gitlab_discovery)),
         session_of (Some (JsonObject gitlab_discovery))
           (answers [ok_json gitlab_discovery, ok_json gitlab_discovery_moved])
           [discovery_example, discovery_example] [1])
   \<and> step (Resume 1) (session_of (Some (JsonObject gitlab_discovery))
           (answers [ok_json gitlab_discovery, ok_json gitlab_discovery_moved])
           [discovery_example, discovery_example] [1])
     = Some (Returned (Inr (JsonObject gitlab_discovery_moved)),
         session_of (Some (JsonObject gitlab_discovery_moved))
           (answers [ok_json gitlab_discovery, ok_json gitlab_discovery_moved])
           [discovery_example, discovery_example] [])
   \<and> run [Begin, Begin, Begin] (session_of (Some (JsonObject gitlab_discovery_moved))
           (answers [ok_json gitlab_discovery, ok_json gitlab_discovery_moved])
           [discovery_example, discovery_example] [])
     = Some ([Returned (Inr (JsonObject gitlab_discovery_moved)),
              Returned (Inr (JsonObject gitlab_discovery_moved)),
              Returned (Inr (JsonObject gitlab_discovery_moved))],
         session_of (Some (JsonObject gitlab_discovery_moved))
           (answers [ok_json gitlab_discovery, ok_json gitlab_discovery_moved])
           [discovery_example, discovery_example] [])
   \<and> step (Resume 0) (session_of (Some (JsonObject gitlab_discovery_moved))
           (answers [ok_json gitlab_discovery, ok_json gitlab_discovery_moved])
           [discovery_example, discovery_example] [])
     = None
   \<and> step (Resume 0) (session_of None (answers [not_json 404]) [discovery_example] [0])
     = Some (Returned (Inl SyntaxError), session_of None (answers [not_json 404]) [discovery_example] [])
   \<and> step (Resume 0) (session_of None (answers [Rejected]) [discovery_example] [0])
     = Some (Returned (Inl FetchRejected), session_of None (answers [Rejected]) [discovery_example] [])
   \<and> step Begin (session_of None (answers [not_json 404]) [discovery_example] [])
     = Some (Suspended 1,
         session_of None (answers [not_json 404]) [discovery_example, discovery_example] [1])
   \<and> run [Begin] (fresh_session (gitlab_example\<lparr>config := Some (JsonObject gitlab_discovery)\<rparr>) (answers []))
     = Some ([Returned (Inr (JsonObject gitlab_discovery))],
             fresh_session (gitlab_example\<lparr>config := Some (JsonObject gitlab_discovery)\<rparr>) (answers []))
   \<and> getOpenIDConfig (gitlab_example\<lparr>config := Some (JsonObject gitlab_discovery)\<rparr>) (answers [])
     = (Inr (JsonObject gitlab_discovery),
        gitlab_example\<lparr>config := Some (JsonObject gitlab_discovery)\<rparr>, answers [])
   \<and> (\<exists>r s'. run [Begin, Resume 0] (fresh_session gitlab_example (answers [ok_json gitlab_discovery]))
                = Some ([Suspended 0, Returned r], s')
         \<and> getOpenIDConfig gitlab_example (answers [ok_json gitlab_discovery])
             = (r, provider s', outside s')
         \<and> waiting s' = []
         \<and> requests (outside s') = [discovery_request (settings gitlab_example)])
   \<and> getOpenIDConfig gitlab_example (answers [ok_json gitlab_discovery])
     = (Inr (JsonObject gitlab_discovery),
        gitlab_example\<lparr>config := Some (JsonObject gitlab_discovery)\<rparr>,
        (answers [ok_json gitlab_discovery])\<lparr>requests := [discovery_request (settings gitlab_example)]\<rparr>)
   \<and> getOpenIDConfig_calls 3 (gitlab_example\<lparr>config := Some (JsonObject gitlab_discovery)\<rparr>)
        ((answers [ok_json gitlab_discovery])\<lparr>requests := [discovery_request (settings gitlab_example)]\<rparr>)
     = ([Inr (JsonObject gitlab_discovery), Inr (JsonObject gitlab_discovery),
         Inr (JsonObject gitlab_discovery)],
        gitlab_example\<lparr>config := Some (JsonObject gitlab_discovery)\<rparr>,
        (answers [ok_json gitlab_discovery])\<lparr>requests := [discovery_request (settings gitlab_example)]\<rparr>)"
proof -
  let ?two = "answers [ok_json gitlab_discovery, ok_json gitlab_discovery_moved]"
  let ?A = "JsonObject gitlab_discovery"
  let ?B = "JsonObject gitlab_discovery_moved"
  let ?D = discovery_example
  note unset = disjI1 [of "config (provider (session_of None w rqs ts)) = None"
        "config (provider (session_of None w rqs ts)) = Some JsonNull" for w rqs ts,
      OF session_of_simps(1)]
  have b0: "step Begin (session_of None ?two [] []) = Some (Suspended 0, session_of None ?two [?D] [0])"
    using discovery_document_kept [where s = "session_of None ?two [] []",
        THEN conjunct2, THEN conjunct2, THEN conjunct1, THEN mp, OF unset]
    by (simp add: session_of_simps session_of_updates)
  have b1: "step Begin (session_of None ?two [?D] [0])
      = Some (Suspended 1, session_of None ?two [?D, ?D] [0, 1])"
    using discovery_document_kept [where s = "session_of None ?two [?D] [0]",
        THEN conjunct2, THEN conjunct2, THEN conjunct1, THEN mp, OF unset]
    by (simp add: session_of_simps session_of_updates)
  have b2: "step Begin (session_of None (answers [not_json 404]) [?D] [])
      = Some (Suspended 1, session_of None (answers [not_json 404]) [?D, ?D] [1])"
    using discovery_document_kept [where s = "session_of None (answers [not_json 404]) [?D] []",
        THEN conjunct2, THEN conjunct2, THEN conjunct1, THEN mp, OF unset]
    by (simp add: session_of_simps session_of_updates)
  have r0: "step (Resume 0) (session_of None ?two [?D, ?D] [0, 1])
      = Some (Returned (Inr ?A), session_of (Some ?A) ?two [?D, ?D] [1])"
    using discovery_document_kept [where s = "session_of None ?two [?D, ?D] [0, 1]" and t = 0,
        THEN conjunct2, THEN conjunct2, THEN conjunct2, THEN conjunct1, THEN mp]
    by (simp add: session_of_simps session_of_updates answers_def ok_json_def)
  have r1: "step (Resume 1) (session_of (Some ?A) ?two [?D, ?D] [1])
      = Some (Returned (Inr ?B), session_of (Some ?B) ?two [?D, ?D] [])"
    using discovery_document_kept [where s = "session_of (Some ?A) ?two [?D, ?D] [1]" and t = 1,
        THEN conjunct2, THEN conjunct2, THEN conjunct2, THEN conjunct1, THEN mp]
    by (simp add: session_of_simps session_of_updates answers_def ok_json_def)
  have r2: "step (Resume 0) (session_of None (answers [not_json 404]) [?D] [0])
      = Some (Returned (Inl SyntaxError), session_of None (answers [not_json 404]) [?D] [])"
    using discovery_document_kept [where s = "session_of None (answers [not_json 404]) [?D] [0]" and t = 0,
        THEN conjunct2, THEN conjunct2, THEN conjunct2, THEN conjunct1, THEN mp]
    by (simp add: session_of_simps session_of_updates answers_def not_json_def)
  have r3: "step (Resume 0) (session_of None (answers [Rejected]) [?D] [0])
      = Some (Returned (Inl FetchRejected), session_of None (answers [Rejected]) [?D] [])"
    using discovery_document_kept [where s = "session_of None (answers [Rejected]) [?D] [0]" and t = 0,
        THEN conjunct2, THEN conjunct2, THEN conjunct2, THEN conjunct1, THEN mp]
    by (simp add: session_of_simps session_of_updates answers_def)
  have k: "run [Begin, Begin, Begin] (session_of (Some ?B) ?two [?D, ?D] [])
      = Some ([Returned (Inr ?B), Returned (Inr ?B), Returned (Inr ?B)],
              session_of (Some ?B) ?two [?D, ?D] [])"
    using discovery_document_kept [where s = "session_of (Some ?B) ?two [?D, ?D] []"
        and c = gitlab_discovery_moved and es = "[Begin, Begin, Begin]",
        THEN conjunct2, THEN conjunct1, THEN mp]
    by (simp add: session_of_simps numeral_3_eq_3)
  have i: "step (Resume 0) (session_of (Some ?B) ?two [?D, ?D] []) = None"
    using discovery_document_kept [where s = "session_of (Some ?B) ?two [?D, ?D] []" and t = 0,
        THEN conjunct2, THEN conjunct2, THEN conjunct2, THEN conjunct2, THEN conjunct1, THEN mp]
    by (simp add: session_of_simps)
  let ?P = "gitlab_example\<lparr>config := Some ?A\<rparr>"
  have stored: "config ?P = Some ?A"
    by simp
  have fresh: "config gitlab_example = None \<or> config gitlab_example = Some JsonNull"
    by (simp add: gitlab_example_def)
  have none: "requests (answers [ok_json gitlab_discovery]) = []"
    by (simp add: answers_def)
  note alone = discovery_document_kept [where p = ?P and c = gitlab_discovery and w = "answers []",
      THEN conjunct2, THEN conjunct2, THEN conjunct2, THEN conjunct2, THEN conjunct2,
      THEN conjunct1, THEN mp, OF stored]
  have a1: "run [Begin] (fresh_session ?P (answers []))
      = Some ([Returned (Inr ?A)], fresh_session ?P (answers []))"
    by (rule alone [THEN conjunct1])
  have a2: "getOpenIDConfig ?P (answers []) = (Inr ?A, ?P, answers [])"
    by (rule alone [THEN conjunct2])
  have a3: "\<exists>r s'. run [Begin, Resume 0] (fresh_session gitlab_example (answers [ok_json gitlab_discovery]))
                = Some ([Suspended 0, Returned r], s')
         \<and> getOpenIDConfig gitlab_example (answers [ok_json gitlab_discovery])
             = (r, provider s', outside s')
         \<and> waiting s' = []
         \<and> requests (outside s') = [discovery_request (settings gitlab_example)]"
    using discovery_document_kept [where p = gitlab_example and w = "answers [ok_json gitlab_discovery]",
        THEN conjunct2, THEN conjunct2, THEN conjunct2, THEN conjunct2, THEN conjunct2,
        THEN conjunct2, THEN conjunct1, THEN mp, OF fresh]
    by (simp add: none)
  have first: "getOpenIDConfig gitlab_example (answers [ok_json gitlab_discovery])
     = (Inr ?A, ?P,
        (answers [ok_json gitlab_discovery])\<lparr>requests := [discovery_request (settings gitlab_example)]\<rparr>)"
    using getOpenIDConfig_fresh [of "settings gitlab_example" gitlab_discovery "[]"]
    by (simp add: gitlab_example_def)
  have later: "getOpenIDConfig_calls 3 ?P
        ((answers [ok_json gitlab_discovery])\<lparr>requests := [discovery_request (settings gitlab_example)]\<rparr>)
     = ([Inr ?A, Inr ?A, Inr ?A], ?P,
        (answers [ok_json gitlab_discovery])\<lparr>requests := [discovery_request (settings gitlab_example)]\<rparr>)"
    using discovery_document_kept [where p = gitlab_example and w = "answers [ok_json gitlab_discovery]"
        and c = gitlab_discovery and n = 3,
        THEN conjunct2, THEN conjunct2, THEN conjunct2, THEN conjunct2, THEN conjunct2,
        THEN conjunct2, THEN conjunct2, THEN mp, OF first]
    by (simp add: numeral_3_eq_3)
  from b0 b1 r0 r1 k i r2 r3 b2 a1 a2 a3 first later show ?thesis
    by (intro conjI)
qed

section \<open>The provider registry, selected by name\<close>

text \<open>
  C7 as stated does not hold of \<^verbatim>\<open>src/oauth-providers/index.ts\<close>: its registry has no
  entry \<open>github\<close>, so looking that name up does not yield the GitHub provider's class.
\<close>

theorem registry_counterexample:
  "select_provider index_ts ''github'' = None"
  by (simp add: select_provider_def index_ts_def)

text \<open>
  C7, amended. In each index listing, every provider class the module exports is selected
  by the registry under the name of the module it is imported from. The names \<open>dropbox\<close>,
  \<open>facebook\<close>, \<open>google\<close>, \<open>instagram\<close>, \<open>spotify\<close> and \<open>gitlab\<close> select their classes in
  both listings; \<open>github\<close> selects \<^verbatim>\<open>GithubAuthProvider\<close> in the listing that imports
  \<^verbatim>\<open>./github\<close>.
\<close>

theorem registry_selects_exported:
  "list_all (\<lambda>c. \<exists>name. map_of (imported index_ts) c = Some name \<and> select_provider index_ts name = Some c)
     (exported index_ts)
   \<and> list_all (\<lambda>c. \<exists>name. map_of (imported index_ts_github) c = Some name
                     \<and> select_provider index_ts_github name = Some c)
     (exported index_ts_github)
   \<and> select_provider index_ts ''dropbox'' = Some DropboxAuthProvider
   \<and> select_provider index_ts ''facebook'' = Some FacebookAuthProvider
   \<and> select_provider index_ts ''google'' = Some GoogleAuthProvider
   \<and> select_provider index_ts ''instagram'' = Some InstagramAuthProvider
   \<and> select_provider index_ts ''spotify'' = Some SpotifyAuthProvider
   \<and> select_provider index_ts ''gitlab'' = Some GitlabAuthProvider
   \<and> select_provider index_ts_github ''dropbox'' = Some DropboxAuthProvider
   \<and> select_provider index_ts_github ''facebook'' = Some FacebookAuthProvider
   \<and> select_provider index_ts_github ''google'' = Some GoogleAuthProvider
   \<and> select_provider index_ts_github ''instagram'' = Some InstagramAuthProvider
   \<and> select_provider index_ts_github ''spotify'' = Some SpotifyAuthProvider
   \<and> select_provider index_ts_github ''gitlab'' = Some GitlabAuthProvider
   \<and> select_provider index_ts_github ''github'' = Some GithubAuthProvider"
  by (simp add: select_provider_def index_ts_def index_ts_github_def)

section \<open>Verified e-mail addresses of GitHub users\<close>

text \<open>
  C8. Whenever the GitHub provider's \<^verbatim>\<open>getUserInfo\<close> returns a profile, the profile's
  \<open>email_verified\<close> is \<^verbatim>\<open>true\<close>, whatever the payload says: in the example the payload
  carries \<^verbatim>\<open>email_verified: false\<close>.
\<close>

theorem github_email_verified:
  "github_getUserInfo tok w = (Inr profile, w') \<Longrightarrow> own profile ''email_verified'' = Bool True"
  by (auto dest!: github_getUserInfo_accepted simp: github_profile_def own_def)

theorem github_email_verified_witness:
  "\<exists>profile w'.
     github_getUserInfo ''token''
       (answers [ok_json [(''login'', Str ''octocat''), (''email_verified'', Bool False)]])
       = (Inr profile, w')
     \<and> own profile ''email_verified'' = Bool True"
proof -
  obtain profile w' where run:
    "github_getUserInfo ''token''
       (answers [ok_json [(''login'', Str ''octocat''), (''email_verified'', Bool False)]])
       = (Inr profile, w')"
    by (simp add: github_getUserInfo_ok_json)
  from github_email_verified [OF run] run show ?thesis
    by blast
qed

section \<open>The info route for users other than the administrator\<close>

lemma info_route_plain:
  "user req = None \<or> (\<exists>u. user req = Some u \<and> uid u \<noteq> ''admin'') \<Longrightarrow>
   info_route env req =
     [(''version'', meta_version env), (''time'', Num (date_now env)), (''process'', Num (process_pid env))]"
  by (auto simp: info_route_def)

lemma info_route_admin_keys:
  "user req = Some u \<Longrightarrow> uid u = ''admin'' \<Longrightarrow>
   keys (info_route env req) =
     [''version'', ''time'', ''process'', ''dbname'', ''platform'', ''arch'', ''release'', ''host'',
      ''uptime'', ''load'', ''mem'', ''cpus'', ''network'']"
  by (simp add: info_route_def object_assign_def adminInfo_def js_set_def keys_def)

text \<open>
  C9. When the request has no user, or a user whose \<open>uid\<close> is not \<open>admin\<close>, the body sent
  by the info route is exactly \<open>version\<close>, \<open>time\<close> and \<open>process\<close>, and has none of the
  properties \<open>dbname\<close>, \<open>platform\<close>, \<open>arch\<close>, \<open>release\<close>, \<open>host\<close>, \<open>uptime\<close>, \<open>load\<close>,
  \<open>mem\<close>, \<open>cpus\<close>, \<open>network\<close>. For the user \<open>admin\<close> the body has all of these after the
  first three.
\<close>

theorem info_route_not_admin:
  "(user req = None \<or> (\<exists>u. user req = Some u \<and> uid u \<noteq> ''admin'') \<longrightarrow>
      info_route env req =
        [(''version'', meta_version env), (''time'', Num (date_now env)),
         (''process'', Num (process_pid env))]
      \<and> list_all (\<lambda>k. k \<notin> set (keys (info_route env req)))
           [''dbname'', ''platform'', ''arch'', ''release'', ''host'', ''uptime'', ''load'', ''mem'',
            ''cpus'', ''network''])
   \<and> (user req = Some u \<and> uid u = ''admin'' \<longrightarrow>
      keys (info_route env req) =
        [''version'', ''time'', ''process'', ''dbname'', ''platform'', ''arch'', ''release'', ''host'',
         ''uptime'', ''load'', ''mem'', ''cpus'', ''network''])"
proof (intro conjI impI)
  assume a: "user req = None \<or> (\<exists>u. user req = Some u \<and> uid u \<noteq> ''admin'')"
  show "info_route env req =
        [(''version'', meta_version env), (''time'', Num (date_now env)),
         (''process'', Num (process_pid env))]"
    by (rule info_route_plain [OF a])
  show "list_all (\<lambda>k. k \<notin> set (keys (info_route env req)))
           [''dbname'', ''platform'', ''arch'', ''release'', ''host'', ''uptime'', ''load'', ''mem'',
            ''cpus'', ''network'']"
    by (simp add: info_route_plain [OF a] keys_def)
next
  assume "user req = Some u \<and> uid u = ''admin''"
  then show "keys (info_route env req) =
        [''version'', ''time'', ''process'', ''dbname'', ''platform'', ''arch'', ''release'', ''host'',
         ''uptime'', ''load'', ''mem'', ''cpus'', ''network'']"
    by (simp add: info_route_admin_keys)
qed

theorem info_route_not_admin_witness:
  "info_route info_env_example \<lparr>user = None\<rparr>
     = [(''version'', Str ''1.0.0''), (''time'', Num 1700000000000), (''process'', Num 4242)]
   \<and> info_route info_env_example \<lparr>user = Some \<lparr>uid = ''alice''\<rparr>\<rparr>
     = [(''version'', Str ''1.0.0''), (''time'', Num 1700000000000), (''process'', Num 4242)]
   \<and> keys (info_route info_env_example \<lparr>user = Some \<lparr>uid = ''admin''\<rparr>\<rparr>)
     = [''version'', ''time'', ''process'', ''dbname'', ''platform'', ''arch'', ''release'', ''host'',
        ''uptime'', ''load'', ''mem'', ''cpus'', ''network'']"
proof -
  have anonymous: "user \<lparr>user = None\<rparr> = None
      \<or> (\<exists>u. user \<lparr>user = None\<rparr> = Some u \<and> uid u \<noteq> ''admin'')"
    by simp
  have alice: "user \<lparr>user = Some \<lparr>uid = ''alice''\<rparr>\<rparr> = None
      \<or> (\<exists>u. user \<lparr>user = Some \<lparr>uid = ''alice''\<rparr>\<rparr> = Some u \<and> uid u \<noteq> ''admin'')"
    by simp
  have admin: "user \<lparr>user = Some \<lparr>uid = ''admin''\<rparr>\<rparr> = Some \<lparr>uid = ''admin''\<rparr>
      \<and> uid \<lparr>uid = ''admin''\<rparr> = ''admin''"
    by simp
  show ?thesis
    using info_route_not_admin [THEN conjunct1, THEN mp, OF anonymous, of info_env_example]
      info_route_not_admin [THEN conjunct1, THEN mp, OF alice, of info_env_example]
      info_route_not_admin [THEN conjunct2, THEN mp, OF admin, of info_env_example]
    by (simp add: info_env_example_def)
qed

section \<open>Scopes after construction\<close>

lemma default_scopes_Some:
  "default_scopes (Some xs) = xs @ filter (\<lambda>s. s \<notin> set xs) [''email'', ''profile'', ''openid'']"
  by (simp add: default_scopes_def supplied_def push_missing_def Let_def)

lemma default_scopes_None: "default_scopes None = [''email'', ''profile'', ''openid'']"
  by (simp add: default_scopes_def supplied_def push_missing_def Let_def)

lemma completed_count:
  "count_list (xs @ filter (\<lambda>s. s \<notin> set xs) [''email'', ''profile'', ''openid'']) s =
     (if s \<in> set xs then count_list xs s
      else if s \<in> {''email'', ''profile'', ''openid''} then 1 else 0)"
proof (cases "s \<in> set xs")
  case True
  then show ?thesis by simp
next
  case False
  then have "count_list xs s = 0"
    by (simp add: count_list_0_iff)
  with False show ?thesis by auto
qed

text \<open>
  C10. \<^verbatim>\<open>new GithubAuthProvider(settings)\<close> and \<^verbatim>\<open>new GitlabAuthProvider(settings)\<close>
  change nothing in the settings but the scopes. When the caller gave no scopes list, the
  list is \<open>email\<close>, \<open>profile\<close>, \<open>openid\<close> afterwards. When the caller gave the list \<open>xs\<close>,
  the list afterwards is \<open>xs\<close> followed by those of \<open>email\<close>, \<open>profile\<close>, \<open>openid\<close> that are
  not in \<open>xs\<close>: it contains all three, it starts with the caller's scopes unchanged and in
  their order, a scope the caller supplied occurs as often as the caller wrote it (none
  of the three is added a second time), each of the three that was missing occurs once,
  and nothing else is added.
\<close>

theorem constructor_default_scopes:
  "(scopes gh = None \<longrightarrow> github_constructor gh = gh\<lparr>scopes := Some [''email'', ''profile'', ''openid'']\<rparr>)
   \<and> (scopes gh = Some xs \<longrightarrow>
        (\<exists>ys. github_constructor gh = gh\<lparr>scopes := Some ys\<rparr>
           \<and> ys = xs @ filter (\<lambda>s. s \<notin> set xs) [''email'', ''profile'', ''openid'']
           \<and> ''email'' \<in> set ys \<and> ''profile'' \<in> set ys \<and> ''openid'' \<in> set ys
           \<and> take (length xs) ys = xs
           \<and> (\<forall>s. count_list ys s =
                  (if s \<in> set xs then count_list xs s
                   else if s \<in> {''email'', ''profile'', ''openid''} then 1 else 0))))
   \<and> (scopes gl = None \<longrightarrow> gitlab_constructor gl = gl\<lparr>scopes := Some [''email'', ''profile'', ''openid'']\<rparr>)
   \<and> (scopes gl = Some zs \<longrightarrow>
        (\<exists>ys. gitlab_constructor gl = gl\<lparr>scopes := Some ys\<rparr>
           \<and> ys = zs @ filter (\<lambda>s. s \<notin> set zs) [''email'', ''profile'', ''openid'']
           \<and> ''email'' \<in> set ys \<and> ''profile'' \<in> set ys \<and> ''openid'' \<in> set ys
           \<and> take (length zs) ys = zs
           \<and> (\<forall>s. count_list ys s =
                  (if s \<in> set zs then count_list zs s
                   else if s \<in> {''email'', ''profile'', ''openid''} then 1 else 0))))"
proof (intro conjI impI)
  assume "scopes gh = None"
  then show "github_constructor gh = gh\<lparr>scopes := Some [''email'', ''profile'', ''openid'']\<rparr>"
    by (simp add: github_constructor_def default_scopes_None)
next
  assume "scopes gl = None"
  then show "gitlab_constructor gl = gl\<lparr>scopes := Some [''email'', ''profile'', ''openid'']\<rparr>"
    by (simp add: gitlab_constructor_def default_scopes_None)
next
  assume a: "scopes gh = Some xs"
  let ?ys = "xs @ filter (\<lambda>s. s \<notin> set xs) [''email'', ''profile'', ''openid'']"
  have "github_constructor gh = gh\<lparr>scopes := Some ?ys\<rparr>"
    using a by (simp add: github_constructor_def default_scopes_Some)
  moreover have "''email'' \<in> set ?ys" "''profile'' \<in> set ?ys" "''openid'' \<in> set ?ys"
    by auto
  moreover have "take (length xs) ?ys = xs"
    by simp
  moreover have "\<forall>s. count_list ?ys s =
                  (if s \<in> set xs then count_list xs s
                   else if s \<in> {''email'', ''profile'', ''openid''} then 1 else 0)"
    using completed_count [of xs] by blast
  ultimately show "\<exists>ys. github_constructor gh = gh\<lparr>scopes := Some ys\<rparr>
           \<and> ys = xs @ filter (\<lambda>s. s \<notin> set xs) [''email'', ''profile'', ''openid'']
           \<and> ''email'' \<in> set ys \<and> ''profile'' \<in> set ys \<and> ''openid'' \<in> set ys
           \<and> take (length xs) ys = xs
           \<and> (\<forall>s. count_list ys s =
                  (if s \<in> set xs then count_list xs s
                   else if s \<in> {''email'', ''profile'', ''openid''} then 1 else 0))"
    by (intro exI [of _ ?ys] conjI) (rule refl | assumption)+
next
  assume a: "scopes gl = Some zs"
  let ?ys = "zs @ filter (\<lambda>s. s \<notin> set zs) [''email'', ''profile'', ''openid'']"
  have "gitlab_constructor gl = gl\<lparr>scopes := Some ?ys\<rparr>"
    using a by (simp add: gitlab_constructor_def default_scopes_Some)
  moreover have "''email'' \<in> set ?ys" "''profile'' \<in> set ?ys" "''openid'' \<in> set ?ys"
    by auto
  moreover have "take (length zs) ?ys = zs"
    by simp
  moreover have "\<forall>s. count_list ?ys s =
                  (if s \<in> set zs then count_list zs s
                   else if s \<in> {''email'', ''profile'', ''openid''} then 1 else 0)"
    using completed_count [of zs] by blast
  ultimately show "\<exists>ys. gitlab_constructor gl = gl\<lparr>scopes := Some ys\<rparr>
           \<and> ys = zs @ filter (\<lambda>s. s \<notin> set zs) [''email'', ''profile'', ''openid'']
           \<and> ''email'' \<in> set ys \<and> ''profile'' \<in> set ys \<and> ''openid'' \<in> set ys
           \<and> take (length zs) ys = zs
           \<and> (\<forall>s. count_list ys s =
                  (if s \<in> set zs then count_list zs s
                   else if s \<in> {''email'', ''profile'', ''openid''} then 1 else 0))"
    by (intro exI [of _ ?ys] conjI) (rule refl | assumption)+
qed

theorem constructor_default_scopes_witness:
  "github_constructor \<lparr>client_id = ''app'', client_secret = ''secret'', scopes = None, settings_state = []\<rparr>
     = \<lparr>client_id = ''app'', client_secret = ''secret'',
        scopes = Some [''email'', ''profile'', ''openid''], settings_state = []\<rparr>
   \<and> github_constructor \<lparr>client_id = ''app'', client_secret = ''secret'',
        scopes = Some [''profile'', ''repo'', ''profile''], settings_state = []\<rparr>
     = \<lparr>client_id = ''app'', client_secret = ''secret'',
        scopes = Some [''profile'', ''repo'', ''profile'', ''email'', ''openid''], settings_state = []\<rparr>
   \<and> gitlab_constructor \<lparr>client_id = ''app'', client_secret = ''secret'', scopes = None, host = ''gitlab.example''\<rparr>
     = \<lparr>client_id = ''app'', client_secret = ''secret'',
        scopes = Some [''email'', ''profile'', ''openid''], host = ''gitlab.example''\<rparr>
   \<and> gitlab_constructor \<lparr>client_id = ''app'', client_secret = ''secret'',
        scopes = Some [''openid'', ''api''], host = ''gitlab.example''\<rparr>
     = \<lparr>client_id = ''app'', client_secret = ''secret'',
        scopes = Some [''openid'', ''api'', ''email'', ''profile''], host = ''gitlab.example''\<rparr>"
proof -
  let ?gh0 = "\<lparr>client_id = ''app'', client_secret = ''secret'', scopes = None, settings_state = []\<rparr>"
  let ?gh1 = "\<lparr>client_id = ''app'', client_secret = ''secret'',
        scopes = Some [''profile'', ''repo'', ''profile''], settings_state = []\<rparr>"
  let ?gl0 = "\<lparr>client_id = ''app'', client_secret = ''secret'', scopes = None, host = ''gitlab.example''\<rparr>"
  let ?gl1 = "\<lparr>client_id = ''app'', client_secret = ''secret'',
        scopes = Some [''openid'', ''api''], host = ''gitlab.example''\<rparr>"
  have h0: "scopes ?gh0 = None" and h1: "scopes ?gh1 = Some [''profile'', ''repo'', ''profile'']"
    and l0: "scopes ?gl0 = None" and l1: "scopes ?gl1 = Some [''openid'', ''api'']"
    by simp_all
  note none = constructor_default_scopes [where gh = ?gh0 and gl = ?gl0]
  note some = constructor_default_scopes [where gh = ?gh1 and xs = "[''profile'', ''repo'', ''profile'']"
      and gl = ?gl1 and zs = "[''openid'', ''api'']"]
  show ?thesis
    using none [THEN conjunct1, THEN mp, OF h0]
      some [THEN conjunct2, THEN conjunct1, THEN mp, OF h1]
      none [THEN conjunct2, THEN conjunct2, THEN conjunct1, THEN mp, OF l0]
      some [THEN conjunct2, THEN conjunct2, THEN conjunct2, THEN mp, OF l1]
    by simp
qed

end
